theory Spec2Isabelle
  imports Complex_Main
begin

section \<open>Values, exceptions and frames\<close>

text \<open>
  Python floats are modelled as exact reals: every comparison and every arithmetic
  operation of the source is kept, rounding error and the non-finite values of IEEE
  arithmetic are not. Strings are byte lists; the pictographs of the status labels are
  written as their UTF-8 bytes.
\<close>

datatype exn =
  KeyError | TypeError | ValueError | IndexError | ZeroDivisionError
  | JSONDecodeError | OSError

text \<open>
  A parsed JSON document, as \<^verbatim>\<open>json.load\<close> and \<^verbatim>\<open>response.json()\<close> return it. The
  pairs of a \<open>JObj\<close> are the items of a Python dict, so their keys are distinct.
\<close>

datatype json =
  JNull | JBool bool | JNum real | JStr string | JArr "json list"
  | JObj "(string \<times> json) list"

text \<open>Python's truth value of such a value, as \<^verbatim>\<open>if rate:\<close> tests it.\<close>

fun truthy :: "json \<Rightarrow> bool" where
  "truthy JNull = False"
| "truthy (JBool b) = b"
| "truthy (JNum x) = (x \<noteq> 0)"
| "truthy (JStr s) = (s \<noteq> [])"
| "truthy (JArr xs) = (xs \<noteq> [])"
| "truthy (JObj kvs) = (kvs \<noteq> [])"

text \<open>\<^verbatim>\<open>cache[key]\<close>: a missing key raises KeyError, a value that is no dict TypeError.\<close>

fun getitem :: "json \<Rightarrow> string \<Rightarrow> exn + json" where
  "getitem (JObj kvs) k = (case map_of kvs k of None \<Rightarrow> Inl KeyError | Some v \<Rightarrow> Inr v)"
| "getitem _ k = Inl TypeError"

text \<open>
  The data frame of the program: one row per rate point with its \<^verbatim>\<open>Date\<close> and
  \<^verbatim>\<open>Rate\<close> cells, under the default index 0, 1, 2, ..., and the two indicator columns,
  which are absent until \<^verbatim>\<open>calculate_trading_profit\<close> assigns them.
\<close>

record frame =
  rows :: "(string \<times> real) list"
  SMA_7 :: "real list option"
  SMA_14 :: "real list option"

definition DataFrame :: "(string \<times> real) list \<Rightarrow> frame" where
  "DataFrame data = \<lparr>rows = data, SMA_7 = None, SMA_14 = None\<rparr>"

definition Date :: "frame \<Rightarrow> string list" where
  "Date df = map fst (rows df)"

definition Rate :: "frame \<Rightarrow> real list" where
  "Rate df = map snd (rows df)"

section \<open>Moving averages\<close>

definition mean :: "real list \<Rightarrow> real" where
  "mean xs = sum_list xs / real (length xs)"

text \<open>
  \<^verbatim>\<open>Series.rolling(window=w, min_periods=1).mean()\<close> of pandas: the series is read
  once from the start, the window holds the observations seen so far until it is full,
  and from then on drops its oldest observation for every new one; each output is the
  mean of the window after the current observation has entered it. The means here are
  exact. pandas keeps a running sum of the window in floats, so its means can differ
  from these in the last bits; for that reason \<open>backtest\<close> below takes the two columns
  as arguments, and what is proved of it for all columns holds for those of pandas.
\<close>

fun rolling :: "nat \<Rightarrow> real list \<Rightarrow> real list \<Rightarrow> real list" where
  "rolling w win [] = []"
| "rolling w win (x # xs) =
     (let win' = (if length win < w then win @ [x] else tl win @ [x])
      in mean win' # rolling w win' xs)"

definition rolling_mean :: "nat \<Rightarrow> real list \<Rightarrow> real list" where
  "rolling_mean w xs = rolling w [] xs"

text \<open>
  The window the specification names: the values at the indices \<open>max(0, i - (w - 1))\<close>
  to \<open>i\<close> of the series, both included.
\<close>

definition trailing_window :: "nat \<Rightarrow> real list \<Rightarrow> nat \<Rightarrow> real list" where
  "trailing_window w xs i =
     (let lo = nat (max 0 (int i - (int w - 1)))
      in map (\<lambda>k. xs ! k) [lo..<Suc i])"

section \<open>The crossover backtest\<close>

datatype action = BUY | SELL

record trade =
  date :: string
  action :: action
  rate :: real
  amount_usd :: real
  amount_nis :: real

record bt_state =
  usd_balance :: real
  nis_balance :: real
  trades :: "trade list"
  portfolio_value :: "real list"

text \<open>
  The rows that \<^verbatim>\<open>iterrows\<close> yields hold a string and a float, so their cells are
  Python floats and a division by a zero rate raises ZeroDivisionError.
\<close>

definition truediv :: "real \<Rightarrow> real \<Rightarrow> exn + real" where
  "truediv a b = (if b = 0 then Inl ZeroDivisionError else Inr (a / b))"

text \<open>
  One pass of the loop body of \<^verbatim>\<open>calculate_trading_profit\<close>, at the row with the
  given index. The columns are those of the frame after the indicators were assigned.
\<close>

definition loop_body ::
  "string list \<Rightarrow> real list \<Rightarrow> real list \<Rightarrow> real list \<Rightarrow> nat \<Rightarrow> bt_state \<Rightarrow> exn + bt_state" where
  "loop_body dates rates sma7 sma14 index st =
     (let current_rate = rates ! index;
          after_signal =
            (if index > 0 then
               (let prev_sma_7 = sma7 ! (index - 1);
                    prev_sma_14 = sma14 ! (index - 1)
                in if sma7 ! index > sma14 ! index \<and> prev_sma_7 \<le> prev_sma_14
                      \<and> usd_balance st > 0
                   then
                     (let nis = usd_balance st * current_rate
                      in Inr (st\<lparr>nis_balance := nis,
                                trades := trades st @
                                  [\<lparr>date = dates ! index, action = BUY, rate = current_rate,
                                    amount_usd = usd_balance st, amount_nis = nis\<rparr>],
                                usd_balance := 0\<rparr>))
                   else if sma7 ! index < sma14 ! index \<and> prev_sma_7 \<ge> prev_sma_14
                      \<and> nis_balance st > 0
                   then
                     (case truediv (nis_balance st) current_rate of
                        Inl e \<Rightarrow> Inl e
                      | Inr usd \<Rightarrow>
                          Inr (st\<lparr>usd_balance := usd,
                                 trades := trades st @
                                   [\<lparr>date = dates ! index, action = SELL, rate = current_rate,
                                     amount_usd = usd, amount_nis = nis_balance st\<rparr>],
                                 nis_balance := 0\<rparr>))
                   else Inr st)
             else Inr st)
      in case after_signal of
           Inl e \<Rightarrow> Inl e
         | Inr st1 \<Rightarrow>
             (case truediv (nis_balance st1) current_rate of
                Inl e \<Rightarrow> Inl e
              | Inr in_usd \<Rightarrow>
                  Inr (st1\<lparr>portfolio_value :=
                             portfolio_value st1 @ [usd_balance st1 + in_usd]\<rparr>)))"

text \<open>The loop over the index labels, in order; an exception ends it.\<close>

fun iterrows ::
  "string list \<Rightarrow> real list \<Rightarrow> real list \<Rightarrow> real list \<Rightarrow> nat list \<Rightarrow> bt_state \<Rightarrow> exn + bt_state" where
  "iterrows dates rates sma7 sma14 [] st = Inr st"
| "iterrows dates rates sma7 sma14 (index # rest) st =
     (case loop_body dates rates sma7 sma14 index st of
        Inl e \<Rightarrow> Inl e
      | Inr st' \<Rightarrow> iterrows dates rates sma7 sma14 rest st')"

definition initial_state :: "real \<Rightarrow> bt_state" where
  "initial_state initial_usd =
     \<lparr>usd_balance = initial_usd, nis_balance = 0, trades = [], portfolio_value = []\<rparr>"

text \<open>
  \<^verbatim>\<open>calculate_trading_profit(df, initial_usd)\<close> from its two assignments on, with the
  values that the two right-hand sides yield given as \<open>sma_7\<close> and \<open>sma_14\<close>. pandas
  computes them in floating point, and the loop compares them as they are; nothing is
  assumed on them here. The two assignments change the caller's frame, so the frame is
  returned beside the result; it is changed also when the loop raises afterwards.
  \<^verbatim>\<open>iloc[-1]\<close> raises IndexError on a frame without rows. The last division is by a rate
  the loop has divided by already, so it is not zero there. The profit in percent is a
  numpy division, which does not raise: it is \<open>None\<close> (not a number) for an initial
  amount of zero.
\<close>

definition backtest ::
  "frame \<Rightarrow> real list \<Rightarrow> real list \<Rightarrow> real
     \<Rightarrow> (exn + real \<times> real option \<times> trade list \<times> real list) \<times> frame" where
  "backtest df sma_7 sma_14 initial_usd =
     (let df1 = df\<lparr>SMA_7 := Some sma_7\<rparr>;
          df2 = df1\<lparr>SMA_14 := Some sma_14\<rparr>
      in (case (SMA_7 df2, SMA_14 df2) of
            (Some sma7, Some sma14) \<Rightarrow>
              (case iterrows (Date df2) (Rate df2) sma7 sma14 [0..<length (rows df2)]
                      (initial_state initial_usd) of
                 Inl e \<Rightarrow> Inl e
               | Inr st \<Rightarrow>
                   if rows df2 = [] then Inl IndexError
                   else
                     (let final_usd = usd_balance st + nis_balance st / last (Rate df2);
                          profit_usd = final_usd - initial_usd;
                          profit_pct = (if initial_usd = 0 then None
                                        else Some (profit_usd / initial_usd * 100))
                      in Inr (profit_usd, profit_pct, trades st, portfolio_value st)))
          | _ \<Rightarrow> Inl KeyError,
          df2))"

text \<open>
  The whole function, with the rolling means as exact means. Both right-hand sides read
  the Rate column, which the first assignment leaves as it is. The frame of this model
  always has its Date and Rate columns; the frame without any column that
  \<^verbatim>\<open>pd.DataFrame([])\<close> builds, on which the first assignment raises KeyError, is not one
  of its values.
\<close>

definition calculate_trading_profit ::
  "frame \<Rightarrow> real \<Rightarrow> (exn + real \<times> real option \<times> trade list \<times> real list) \<times> frame" where
  "calculate_trading_profit df initial_usd =
     backtest df (rolling_mean 7 (Rate df)) (rolling_mean 14 (Rate df)) initial_usd"

section \<open>The statements of the specification\<close>

text \<open>
  The two crossover conditions as the specification words them, the alternation of a
  list of actions, the last \<open>w\<close> elements of a list, and the invariant of the loop.
\<close>

definition buy_signal :: "real list \<Rightarrow> real list \<Rightarrow> nat \<Rightarrow> real \<Rightarrow> bool" where
  "buy_signal shortMA longMA i usd =
     (i > 0 \<and> shortMA ! i > longMA ! i \<and> shortMA ! (i - 1) \<le> longMA ! (i - 1) \<and> usd > 0)"

definition sell_signal :: "real list \<Rightarrow> real list \<Rightarrow> nat \<Rightarrow> real \<Rightarrow> bool" where
  "sell_signal shortMA longMA i nis =
     (i > 0 \<and> shortMA ! i < longMA ! i \<and> shortMA ! (i - 1) \<ge> longMA ! (i - 1) \<and> nis > 0)"

fun alternates :: "action list \<Rightarrow> bool" where
  "alternates (a # b # as) = (a \<noteq> b \<and> alternates (b # as))"
| "alternates _ = True"

definition lastn :: "nat \<Rightarrow> 'a list \<Rightarrow> 'a list" where
  "lastn w ys = drop (length ys - w) ys"

definition bt_inv :: "bt_state \<Rightarrow> bool" where
  "bt_inv st =
     (alternates (map action (trades st)) \<and>
      (if trades st = [] then nis_balance st = 0
       else action (hd (trades st)) = BUY \<and>
            (if action (last (trades st)) = BUY then usd_balance st = 0
             else nis_balance st = 0)))"

section \<open>Rounding and formatting\<close>

text \<open>
  \<open>round_half_even\<close> is the nearest integer, a tie going to the even neighbour.
  \<open>py_round\<close> is Python's \<^verbatim>\<open>round(x, ndigits)\<close> on the exact value of its argument:
  the nearest value with that number of decimals, a tie going to the even
  neighbour. Python applies it to a binary float, which seldom lies exactly on a tie,
  and returns the float nearest to the decimal result; the rates of the demo
  generator are modelled by their decimal values.
\<close>

definition round_half_even :: "real \<Rightarrow> int" where
  "round_half_even x =
     (let f = \<lfloor>x\<rfloor>; d = x - of_int f
      in if d < 1 / 2 then f else if d > 1 / 2 then f + 1 else if even f then f else f + 1)"

definition py_round :: "real \<Rightarrow> nat \<Rightarrow> real" where
  "py_round x ndigits = of_int (round_half_even (x * 10 ^ ndigits)) / 10 ^ ndigits"

text \<open>
  A Python float is an IEEE 754 double. \<open>to_double x\<close> is the double nearest to the
  real \<open>x\<close>, a tie going to the even significand, which is the result of a float
  operation whose exact result is \<open>x\<close>: \<open>x\<close> is scaled by a power of two until its
  integer part takes 53 bits (by at most \<open>2 ^ 1074\<close>, the exponent of the subnormal
  numbers), rounded to an integer and scaled back. It stands for magnitudes below
  \<open>2 ^ 1024\<close>, where Python does not overflow.
\<close>

fun shift_up :: "nat \<Rightarrow> real \<Rightarrow> nat" where
  "shift_up 0 y = 0"
| "shift_up (Suc n) y = (if y < 2 ^ 52 then Suc (shift_up n (2 * y)) else 0)"

fun shift_down :: "nat \<Rightarrow> real \<Rightarrow> nat" where
  "shift_down 0 y = 0"
| "shift_down (Suc n) y = (if 2 ^ 53 \<le> y then Suc (shift_down n (y / 2)) else 0)"

definition to_double :: "real \<Rightarrow> real" where
  "to_double x =
     (if x = 0 then 0
      else (let up = shift_up 1074 \<bar>x\<bar>; down = shift_down 971 \<bar>x\<bar>
            in of_int (round_half_even (x * 2 ^ up / 2 ^ down)) * 2 ^ down / 2 ^ up))"

fun digits :: "nat \<Rightarrow> string" where
  "digits n = (if n < 10 then [''0123456789'' ! n] else digits (n div 10) @ [''0123456789'' ! (n mod 10)])"

text \<open>
  The format \<^verbatim>\<open>{age:.1f}\<close>: sign, integer part, point, one decimal. Python prints the
  decimal with one place nearest to the exact value of the double, a tie going to the
  even digit; the argument here is that exact value.
\<close>

definition format_1f :: "real \<Rightarrow> string" where
  "format_1f x =
     (let tenths = nat \<bar>round_half_even (x * 10)\<bar>
      in (if x < 0 then ''-'' else '''') @ digits (tenths div 10) @ ''.'' @ digits (tenths mod 10))"

definition pad2 :: "nat \<Rightarrow> string" where
  "pad2 n = (if n < 10 then ''0'' @ digits n else digits n)"

section \<open>Calendar days\<close>

text \<open>
  A day is its proleptic Gregorian ordinal, day 1 being 0001-01-01, as
  \<^verbatim>\<open>date.toordinal()\<close> counts. The conversion follows the datetime module.
\<close>

definition days_before_month :: "int \<Rightarrow> int" where
  "days_before_month m = [0, 0, 31, 59, 90, 120, 151, 181, 212, 243, 273, 304, 334] ! nat m"

definition days_in_month :: "int \<Rightarrow> int" where
  "days_in_month m = [0, 31, 28, 31, 30, 31, 30, 31, 31, 30, 31, 30, 31] ! nat m"

definition ord2ymd :: "int \<Rightarrow> int \<times> int \<times> int" where
  "ord2ymd ordinal =
     (let n = ordinal - 1;
          n400 = n div 146097; r400 = n mod 146097;
          n100 = r400 div 36524; r100 = r400 mod 36524;
          n4 = r100 div 1461; r4 = r100 mod 1461;
          n1 = r4 div 365; r1 = r4 mod 365;
          year = n400 * 400 + 1 + n100 * 100 + n4 * 4 + n1
      in if n1 = 4 \<or> n100 = 4 then (year - 1, 12, 31)
         else
           (let leapyear = (n1 = 3 \<and> (n4 \<noteq> 24 \<or> n100 = 3));
                month = (r1 + 50) div 32;
                preceding = days_before_month month + (if month > 2 \<and> leapyear then 1 else 0)
            in if preceding > r1
               then (let month' = month - 1;
                         preceding' = preceding
                           - (days_in_month month' + (if month' = 2 \<and> leapyear then 1 else 0))
                     in (year, month', r1 - preceding' + 1))
               else (year, month, r1 - preceding + 1)))"

text \<open>\<^verbatim>\<open>strftime("%Y-%m-%d")\<close> of a day.\<close>

definition strftime_ymd :: "int \<Rightarrow> string" where
  "strftime_ymd ordinal =
     (case ord2ymd ordinal of
        (y, m, d) \<Rightarrow> digits (nat y) @ ''-'' @ pad2 (nat m) @ ''-'' @ pad2 (nat d))"


section \<open>The world outside the program\<close>

text \<open>
  A moment is a number of microseconds since 1970-01-01T00:00:00, local time. A
  datetime parsed from a string is naive or carries a UTC offset; Python refuses to
  subtract an aware datetime from the naive \<^verbatim>\<open>datetime.now()\<close>.
\<close>

datatype pydatetime = Naive int | Aware int

text \<open>
  The cache file: absent, or present with the outcome of opening it and of
  \<^verbatim>\<open>json.load\<close> on it.
\<close>

datatype cache_file = No_File | File "exn + json"

text \<open>
  Everything a call of the program reads from outside, and the two library functions
  whose full behaviour is not modelled:
  \<^item> for each provider, the rate and the date that its fetch function extracts from the
    reply, \<open>None\<close> when it returns the triple of \<^verbatim>\<open>None\<close>s (a failed request, a reply
    without the rate, any exception);
  \<^item> \<open>history days\<close>: the pairs of date and ILS rate of the time series reply, sorted by
    date, \<open>None\<close> for a failed request and for any exception;
  \<^item> \<open>cache_dump\<close>: \<open>None\<close> when writing the cache file succeeds, otherwise the
    state in which the failed write leaves the file;
  \<^item> \<open>cache\<close>: the cache file; \<open>now\<close>: the clock;
  \<^item> \<open>fromisoformat\<close>: \<^verbatim>\<open>datetime.fromisoformat\<close> on a string, \<open>None\<close> where it
    raises ValueError;
  \<^item> \<open>pd_DataFrame\<close>: the frame that pandas builds from the \<^verbatim>\<open>data\<close> value of the
    cache, or the exception it raises.
\<close>

record world =
  boi_usd :: "(real \<times> json) option"
  host_ils :: "(json \<times> json) option"
  er_api_ils :: "(json \<times> json) option"
  history :: "int \<Rightarrow> (string \<times> real) list option"
  cache_dump :: "cache_file option"
  cache :: cache_file
  now :: nat
  fromisoformat :: "string \<Rightarrow> pydatetime option"
  pd_DataFrame :: "json \<Rightarrow> exn + frame"

definition today :: "world \<Rightarrow> int" where
  "today w = 719163 + int (now w div 86400000000)"

section \<open>The rate sources and their chain\<close>

definition check_mark :: string where
  "check_mark = [CHR 0xE2, CHR 0x9C, CHR 0x85]"

definition cross_mark :: string where
  "cross_mark = [CHR 0xE2, CHR 0x9D, CHR 0x8C]"

definition warning_sign :: string where
  "warning_sign = [CHR 0xE2, CHR 0x9A, CHR 0xA0, CHR 0xEF, CHR 0xB8, CHR 0x8F]"

definition bar_chart :: string where
  "bar_chart = [CHR 0xF0, CHR 0x9F, CHR 0x93, CHR 0x8A]"

text \<open>
  The three fetch functions return rate, date and provider name, or three \<^verbatim>\<open>None\<close>s,
  which is \<open>None\<close> here.
\<close>

definition fetch_from_bank_of_israel :: "world \<Rightarrow> (json \<times> json \<times> string) option" where
  "fetch_from_bank_of_israel w =
     (case boi_usd w of
        Some (usd_rate, rate_date) \<Rightarrow> Some (JNum usd_rate, rate_date, ''Bank of Israel'')
      | None \<Rightarrow> None)"

definition fetch_from_exchangerate_host :: "world \<Rightarrow> (json \<times> json \<times> string) option" where
  "fetch_from_exchangerate_host w =
     (case host_ils w of
        Some (a_rate, a_date) \<Rightarrow> Some (a_rate, a_date, ''ExchangeRate.host'')
      | None \<Rightarrow> None)"

definition fetch_from_exchangerate_api :: "world \<Rightarrow> (json \<times> json \<times> string) option" where
  "fetch_from_exchangerate_api w =
     (case er_api_ils w of
        Some (a_rate, a_date) \<Rightarrow> Some (a_rate, a_date, ''ExchangeRate-API'')
      | None \<Rightarrow> None)"

datatype source = Bank_of_Israel | ExchangeRate_host | ExchangeRate_API

text \<open>The test \<^verbatim>\<open>if rate:\<close> on a fetched triple.\<close>

definition if_rate :: "(json \<times> json \<times> string) option \<Rightarrow> (json \<times> json \<times> string) option" where
  "if_rate fetched =
     (case fetched of
        Some (a_rate, a_date, source) \<Rightarrow> if truthy a_rate then fetched else None
      | None \<Rightarrow> None)"

text \<open>
  \<^verbatim>\<open>get_current_rate()\<close>, with the list of the sources it has called beside its
  result. The absent rate and date of the last return are \<open>JNull\<close>.
\<close>

definition get_current_rate :: "world \<Rightarrow> (json \<times> json \<times> string) \<times> source list" where
  "get_current_rate w =
     (case if_rate (fetch_from_bank_of_israel w) of
        Some (a_rate, a_date, source) \<Rightarrow>
          ((a_rate, a_date, check_mark @ '' '' @ source @ '' (Official)''), [Bank_of_Israel])
      | None \<Rightarrow>
     (case if_rate (fetch_from_exchangerate_host w) of
        Some (a_rate, a_date, source) \<Rightarrow>
          ((a_rate, a_date, check_mark @ '' '' @ source), [Bank_of_Israel, ExchangeRate_host])
      | None \<Rightarrow>
     (case if_rate (fetch_from_exchangerate_api w) of
        Some (a_rate, a_date, source) \<Rightarrow>
          ((a_rate, a_date, check_mark @ '' '' @ source),
           [Bank_of_Israel, ExchangeRate_host, ExchangeRate_API])
      | None \<Rightarrow>
          ((JNull, JNull, cross_mark @ '' All APIs unavailable''),
           [Bank_of_Israel, ExchangeRate_host, ExchangeRate_API]))))"

definition fetch_historical_data :: "world \<Rightarrow> int \<Rightarrow> (frame \<times> string) option" where
  "fetch_historical_data w days =
     (case history w days of
        None \<Rightarrow> None
      | Some rates \<Rightarrow>
          (let data = map (\<lambda>(date_str, ils). (date_str, py_round ils 4)) rates
           in if data \<noteq> [] then Some (DataFrame data, ''Historical data (30 days)'')
              else None))"

section \<open>Demo data, cache and acquisition\<close>

definition demo_rate :: "nat \<Rightarrow> real" where
  "demo_rate i =
     (let base_rate = 3.09;
          trend = 0.0005 * real_of_int (int i - 15);
          volatility = 0.01 * real_of_int (int i mod 5 - 2) / 2
      in py_round (base_rate + trend + volatility) 4)"

definition generate_demo_data :: "world \<Rightarrow> frame \<times> json \<times> string" where
  "generate_demo_data w =
     (let start_date = today w - 30;
          data = map (\<lambda>i. (strftime_ymd (start_date + int i), demo_rate i)) [0..<30];
          df = DataFrame data;
          current_rate = snd (last data)
      in (df, JNum current_rate, bar_chart @ '' Demo mode (realistic rates)''))"

text \<open>The statements of the \<^verbatim>\<open>try\<close> block of \<^verbatim>\<open>load_cached_data\<close> after the file is read.\<close>

definition parse_timestamp :: "world \<Rightarrow> json \<Rightarrow> exn + pydatetime" where
  "parse_timestamp w ts =
     (case ts of
        JStr s \<Rightarrow> (case fromisoformat w s of None \<Rightarrow> Inl ValueError | Some t \<Rightarrow> Inr t)
      | _ \<Rightarrow> Inl TypeError)"

text \<open>
  \<^verbatim>\<open>timedelta.total_seconds()\<close> divides the whole number of microseconds by \<open>10 ^ 6\<close>,
  and the age is that float divided by 3600: two float operations, each rounded.
\<close>

definition total_seconds :: "int \<Rightarrow> real" where
  "total_seconds microseconds = to_double (real_of_int microseconds / 10 ^ 6)"

definition age_hours :: "nat \<Rightarrow> pydatetime \<Rightarrow> exn + real" where
  "age_hours clock cache_time =
     (case cache_time of
        Naive t \<Rightarrow> Inr (to_double (total_seconds (int clock - t) / 3600))
      | Aware t \<Rightarrow> Inl TypeError)"

definition read_cache :: "world \<Rightarrow> json \<Rightarrow> exn + frame \<times> json \<times> string" where
  "read_cache w cache_json =
     (case getitem cache_json ''data'' of Inl e \<Rightarrow> Inl e | Inr data \<Rightarrow>
      case pd_DataFrame w data of Inl e \<Rightarrow> Inl e | Inr df \<Rightarrow>
      case getitem cache_json ''timestamp'' of Inl e \<Rightarrow> Inl e | Inr ts \<Rightarrow>
      case parse_timestamp w ts of Inl e \<Rightarrow> Inl e | Inr cache_time \<Rightarrow>
      case age_hours (now w) cache_time of Inl e \<Rightarrow> Inl e | Inr age \<Rightarrow>
      case getitem cache_json ''current_rate'' of Inl e \<Rightarrow> Inl e | Inr current_rate \<Rightarrow>
        Inr (df, current_rate,
             warning_sign @ '' Using cached data ('' @ format_1f age @ '' hours old)''))"

definition try_cache :: "world \<Rightarrow> exn + json \<Rightarrow> exn + frame \<times> json \<times> string" where
  "try_cache w content =
     (case content of Inl e \<Rightarrow> Inl e | Inr cache_json \<Rightarrow> read_cache w cache_json)"

definition load_cached_data :: "world \<Rightarrow> frame \<times> json \<times> string" where
  "load_cached_data w =
     (case cache w of
        File content \<Rightarrow>
          (case try_cache w content of
             Inr result \<Rightarrow> result
           | Inl e \<Rightarrow> generate_demo_data w)
      | No_File \<Rightarrow> generate_demo_data w)"

definition fetch_real_exchange_rates :: "world \<Rightarrow> int \<Rightarrow> frame \<times> json \<times> string" where
  "fetch_real_exchange_rates w days =
     (case fst (get_current_rate w) of
        (current_rate, current_date, status_msg) \<Rightarrow>
          (case fetch_historical_data w days of
             Some (df, hist_msg) \<Rightarrow>
               if rows df \<noteq> [] then
                 (case cache_dump w of
                    None \<Rightarrow>
                      (let actual_current =
                             (if truthy current_rate then current_rate
                              else JNum (last (Rate df)))
                       in (df, actual_current, status_msg))
                  | Some left \<Rightarrow> load_cached_data (w\<lparr>cache := left\<rparr>))
               else load_cached_data w
           | None \<Rightarrow> load_cached_data w))"

section \<open>The statements of the specification on the acquisition\<close>

text \<open>
  The rate formula of the demo generator before rounding; a reply that counts as a
  result (a rate that Python takes as true); a provenance label of the form
  \<open>provider (rank)\<close> behind the check mark; and a cache that fails: no file, or a file
  on which the \<^verbatim>\<open>try\<close> block of \<^verbatim>\<open>load_cached_data\<close> raises.
\<close>

definition spec_demo_rate :: "nat \<Rightarrow> real" where
  "spec_demo_rate i =
     3.09 + 0.0005 * real_of_int (int i - 15) + 0.01 * real_of_int (int i mod 5 - 2) / 2"

definition answers :: "(json \<times> json) option \<Rightarrow> bool" where
  "answers reply = (case reply of Some (a_rate, a_date) \<Rightarrow> truthy a_rate | None \<Rightarrow> False)"

definition boi_reply :: "world \<Rightarrow> (json \<times> json) option" where
  "boi_reply w = (case boi_usd w of Some (usd_rate, rate_date) \<Rightarrow> Some (JNum usd_rate, rate_date) | None \<Rightarrow> None)"

definition rank_labelled :: "string \<Rightarrow> string \<Rightarrow> bool" where
  "rank_labelled provider label =
     (let opening = check_mark @ '' '' @ provider @ '' (''
      in length opening < length label \<and> take (length opening) label = opening
         \<and> last label = CHR '')'')"

text \<open>
  The age in hours as the specification defines it, (now - capturedAt) in hours, as an
  exact number; and the number that a printed label denotes: an optional minus sign,
  the digits of the whole part, a point, the digits of the decimals.
\<close>

definition spec_age_hours :: "int \<Rightarrow> real" where
  "spec_age_hours microseconds = real_of_int microseconds / 10 ^ 6 / 3600"

definition digit_of :: "char \<Rightarrow> nat" where
  "digit_of c = of_char c - 48"

definition read_nat :: "string \<Rightarrow> nat" where
  "read_nat s = foldl (\<lambda>n c. 10 * n + digit_of c) 0 s"

definition read_decimal :: "string \<Rightarrow> real" where
  "read_decimal s =
     (let negative = (take 1 s = ''-'');
          body = (if negative then drop 1 s else s);
          whole = takeWhile (\<lambda>c. c \<noteq> CHR ''.'') body;
          decimals = drop 1 (dropWhile (\<lambda>c. c \<noteq> CHR ''.'') body);
          magnitude = real (read_nat whole) + real (read_nat decimals) / 10 ^ length decimals
      in if negative then - magnitude else magnitude)"

definition cache_unusable :: "world \<Rightarrow> cache_file \<Rightarrow> bool" where
  "cache_unusable w file =
     (case file of
        No_File \<Rightarrow> True
      | File content \<Rightarrow> (case try_cache w content of Inl e \<Rightarrow> True | Inr result \<Rightarrow> False))"

section \<open>Worlds for the examples\<close>

text \<open>
  Concrete inputs for the examples below. \<open>records_frame\<close> is pandas on the value the
  program itself writes under \<^verbatim>\<open>data\<close>: a list of records with a \<^verbatim>\<open>Date\<close> string and a
  \<^verbatim>\<open>Rate\<close> number, the empty list giving the frame without rows; it stands for no
  other shape. \<open>iso_new_year\<close> parses the one timestamp the examples use, midnight of
  2024-01-01, which is 19723 days after the epoch. In the world \<open>offline file clock\<close> no
  provider answers, the history request fails, and the cache file and the clock are
  as given.
\<close>

fun record_row :: "json \<Rightarrow> (string \<times> real) option" where
  "record_row (JObj kvs) =
     (case (map_of kvs ''Date'', map_of kvs ''Rate'') of
        (Some (JStr d), Some (JNum r)) \<Rightarrow> Some (d, r)
      | _ \<Rightarrow> None)"
| "record_row _ = None"

definition records_frame :: "json \<Rightarrow> exn + frame" where
  "records_frame data =
     (case data of
        JArr items \<Rightarrow>
          (case those (map record_row items) of
             Some rs \<Rightarrow> Inr (DataFrame rs)
           | None \<Rightarrow> Inl ValueError)
      | _ \<Rightarrow> Inl ValueError)"

definition new_year_2024 :: nat where
  "new_year_2024 = 1704067200000000"

definition iso_new_year :: "string \<Rightarrow> pydatetime option" where
  "iso_new_year s = (if s = ''2024-01-01T00:00:00'' then Some (Naive (int new_year_2024)) else None)"

definition offline :: "cache_file \<Rightarrow> nat \<Rightarrow> world" where
  "offline file clock =
     \<lparr>boi_usd = None, host_ils = None, er_api_ils = None, history = (\<lambda>days. None),
      cache_dump = None, cache = file, now = clock,
      fromisoformat = iso_new_year, pd_DataFrame = records_frame\<rparr>"

definition empty_record :: json where
  "empty_record = JObj [(''timestamp'', JStr ''2024-01-01T00:00:00''), (''data'', JArr []),
     (''current_rate'', JNum 3.1), (''current_date'', JStr ''2024-01-01'')]"

definition host_only :: world where
  "host_only = (offline No_File 0)\<lparr>host_ils := Some (JNum 3.1, JStr ''2024-01-01'')\<rparr>"

definition boi_zero :: world where
  "boi_zero = (offline No_File 0)\<lparr>boi_usd := Some (0, JStr ''2024-01-01''),
     host_ils := Some (JNum 3.1, JStr ''2024-01-01'')\<rparr>"

definition boi_first :: world where
  "boi_first = (offline No_File 0)\<lparr>boi_usd := Some (3.12, JStr ''2024-01-02''),
     host_ils := Some (JNum 3.1, JStr ''2024-01-01'')\<rparr>"

definition api_only :: world where
  "api_only = (offline No_File 0)\<lparr>er_api_ils := Some (JNum 3.2, JStr ''2024-01-03'')\<rparr>"

definition not_a_date :: json where
  "not_a_date = JObj [(''timestamp'', JStr ''not-a-date''), (''data'', JArr []),
     (''current_rate'', JNum 3.1), (''current_date'', JStr ''2024-01-01'')]"

definition no_timestamp :: json where
  "no_timestamp = JObj [(''data'', JArr []), (''current_rate'', JNum 3.1)]"

definition good_record :: json where
  "good_record = JObj [(''timestamp'', JStr ''2024-01-01T00:00:00''),
     (''data'', JArr [JObj [(''Date'', JStr ''2023-12-31''), (''Rate'', JNum 3.1)]]),
     (''current_rate'', JNum 3.11), (''current_date'', JStr ''2023-12-31'')]"

definition ninety_minutes_later :: nat where
  "ninety_minutes_later = new_year_2024 + 5400000000"

text \<open>
  Further moments after the timestamp of the cached record, and a record whose
  timestamp carries a UTC offset, with a \<^verbatim>\<open>fromisoformat\<close> that parses it to an aware
  datetime.
\<close>

definition twenty_one_minutes_later :: nat where
  "twenty_one_minutes_later = new_year_2024 + 1260000000"

definition ten_hours_three_minutes_later :: nat where
  "ten_hours_three_minutes_later = new_year_2024 + 36180000000"

definition iso_offset :: "string \<Rightarrow> pydatetime option" where
  "iso_offset s =
     (if s = ''2024-01-01T00:00:00+02:00'' then Some (Aware (int new_year_2024 - 7200000000))
      else iso_new_year s)"

definition offset_record :: json where
  "offset_record = JObj [(''timestamp'', JStr ''2024-01-01T00:00:00+02:00''),
     (''data'', JArr [JObj [(''Date'', JStr ''2023-12-31''), (''Rate'', JNum 3.1)]]),
     (''current_rate'', JNum 3.11), (''current_date'', JStr ''2023-12-31'')]"

definition write_fails :: world where
  "write_fails = (offline No_File new_year_2024)
     \<lparr>history := (\<lambda>days. Some [(''2023-12-31'', 3.1)]),
      cache_dump := Some (File (Inl JSONDecodeError))\<rparr>"

text \<open>A series with an upward crossover at index 7 and a downward one at index 10.\<close>

definition buy_sell_frame :: frame where
  "buy_sell_frame = DataFrame
     [(''d00'', 1), (''d01'', 2), (''d02'', 2), (''d03'', 2), (''d04'', 2), (''d05'', 2),
      (''d06'', 2), (''d07'', 2), (''d08'', 1), (''d09'', 1), (''d10'', 1)]"

text \<open>The series 1, 2, ..., 15, the five points of the specification's scenario, and a single point.\<close>

definition one_to_fifteen :: frame where
  "one_to_fifteen = DataFrame
     [(''d01'', 1), (''d02'', 2), (''d03'', 3), (''d04'', 4), (''d05'', 5), (''d06'', 6),
      (''d07'', 7), (''d08'', 8), (''d09'', 9), (''d10'', 10), (''d11'', 11), (''d12'', 12),
      (''d13'', 13), (''d14'', 14), (''d15'', 15)]"

definition five_points :: frame where
  "five_points = DataFrame
     [(''d0'', 3.00), (''d1'', 3.05), (''d2'', 3.10), (''d3'', 3.02), (''d4'', 2.95)]"

definition one_point :: frame where
  "one_point = DataFrame [(''2024-01-01'', 3)]"

section \<open>Moving averages: the trailing window\<close>

lemma lastn_short: "length ys \<le> w \<Longrightarrow> lastn w ys = ys"
  by (simp add: lastn_def)

lemma lastn_append_lastn: "lastn w (lastn w a @ b) = lastn w (a @ b)"
proof (cases "w \<le> length a")
  case True
  then have "length a + length b - w = length b + (length a - w)" by simp
  then have "drop (length a + length b - w) (a @ b) = drop (length b) (drop (length a - w) (a @ b))"
    by (simp only: drop_drop)
  with True show ?thesis by (simp add: lastn_def)
next
  case False
  then show ?thesis by (simp add: lastn_def)
qed

lemma length_lastn: "length (lastn w ys) = min w (length ys)"
  by (simp add: lastn_def)

lemma window_step:
  assumes "0 < w" "length win \<le> w"
  shows "(if length win < w then win @ [x] else tl win @ [x]) = lastn w (win @ [x])"
proof (cases "length win < w")
  case True
  then show ?thesis by (simp add: lastn_def)
next
  case False
  with assms have len: "length win = w" by simp
  with assms have "win \<noteq> []" by auto
  then have "tl win = drop 1 win" by (simp add: drop_Suc)
  moreover have "Suc 0 - w = 0" using assms(1) by simp
  ultimately show ?thesis using len False by (simp add: lastn_def)
qed

lemma length_rolling: "length (rolling w win xs) = length xs"
  by (induction xs arbitrary: win) (simp_all add: Let_def)

lemma rolling_nth:
  assumes "0 < w" "length win \<le> w" "i < length xs"
  shows "rolling w win xs ! i = mean (lastn w (win @ take (Suc i) xs))"
  using assms
proof (induction xs arbitrary: win i)
  case Nil
  then show ?case by simp
next
  case (Cons x xs)
  let ?win' = "lastn w (win @ [x])"
  have step: "(if length win < w then win @ [x] else tl win @ [x]) = ?win'"
    using Cons.prems(1,2) by (rule window_step)
  have len': "length ?win' \<le> w" by (simp add: length_lastn)
  show ?case
  proof (cases i)
    case 0
    then show ?thesis using step by (simp add: Let_def)
  next
    case (Suc j)
    with Cons.prems have j: "j < length xs" by simp
    have "rolling w win (x # xs) ! i = rolling w ?win' xs ! j"
      using Suc step by (simp add: Let_def)
    also have "\<dots> = mean (lastn w (?win' @ take (Suc j) xs))"
      using Cons.IH [OF Cons.prems(1) len' j] .
    also have "lastn w (?win' @ take (Suc j) xs) = lastn w ((win @ [x]) @ take (Suc j) xs)"
      by (rule lastn_append_lastn)
    finally show ?thesis using Suc by simp
  qed
qed

lemma drop_take_nths:
  assumes "i < length xs"
  shows "drop lo (take (Suc i) xs) = map (\<lambda>k. xs ! k) [lo..<Suc i]"
proof -
  have "take (Suc i) xs = map (\<lambda>k. xs ! k) [0..<Suc i]"
    using assms by (intro nth_equalityI) (simp_all del: upt_Suc)
  then have "drop lo (take (Suc i) xs) = map (\<lambda>k. xs ! k) (drop lo [0..<Suc i])"
    by (simp only: drop_map)
  then show ?thesis by (simp del: upt_Suc)
qed

lemma lastn_take_window:
  assumes "0 < w" "i < length xs"
  shows "lastn w (take (Suc i) xs) = trailing_window w xs i"
proof -
  have lo: "nat (max 0 (int i - (int w - 1))) = Suc i - w"
    using assms(1) by (simp add: max_def nat_diff_distrib)
  have "length (take (Suc i) xs) = Suc i"
    using assms(2) by simp
  then have "lastn w (take (Suc i) xs) = drop (Suc i - w) (take (Suc i) xs)"
    by (simp only: lastn_def)
  also have "\<dots> = map (\<lambda>k. xs ! k) [Suc i - w..<Suc i]"
    using assms(2) by (rule drop_take_nths)
  finally show ?thesis by (simp only: trailing_window_def lo Let_def)
qed

section \<open>The backtest loop\<close>

lemma signals_exclusive: "\<not> (buy_signal s l i u \<and> sell_signal s l i n)"
  by (auto simp: buy_signal_def sell_signal_def)

lemma iterrows_append:
  "iterrows D R a b (xs @ ys) st =
     (case iterrows D R a b xs st of Inl e \<Rightarrow> Inl e | Inr st' \<Rightarrow> iterrows D R a b ys st')"
  by (induction xs arbitrary: st) (simp_all split: sum.splits)

lemma iterrows_Suc:
  "iterrows D R a b [0..<Suc k] st =
     (case iterrows D R a b [0..<k] st of Inl e \<Rightarrow> Inl e | Inr st' \<Rightarrow> loop_body D R a b k st')"
  by (simp add: iterrows_append split: sum.splits)

lemma loop_body_buy:
  assumes "R ! i \<noteq> 0" "buy_signal a b i (usd_balance st)"
  shows "loop_body D R a b i st =
     Inr (st\<lparr>nis_balance := usd_balance st * R ! i,
            trades := trades st @
              [\<lparr>date = D ! i, action = BUY, rate = R ! i,
                amount_usd = usd_balance st, amount_nis = usd_balance st * R ! i\<rparr>],
            usd_balance := 0,
            portfolio_value := portfolio_value st @ [usd_balance st]\<rparr>)"
  using assms by (simp add: loop_body_def buy_signal_def truediv_def Let_def)

lemma loop_body_sell:
  assumes "R ! i \<noteq> 0" "sell_signal a b i (nis_balance st)"
  shows "loop_body D R a b i st =
     Inr (st\<lparr>usd_balance := nis_balance st / R ! i,
            trades := trades st @
              [\<lparr>date = D ! i, action = SELL, rate = R ! i,
                amount_usd = nis_balance st / R ! i, amount_nis = nis_balance st\<rparr>],
            nis_balance := 0,
            portfolio_value := portfolio_value st @ [nis_balance st / R ! i]\<rparr>)"
proof -
  have "\<not> buy_signal a b i (usd_balance st)"
    using assms(2) signals_exclusive by blast
  with assms show ?thesis
    by (auto simp add: loop_body_def buy_signal_def sell_signal_def truediv_def Let_def)
qed

lemma loop_body_hold:
  assumes "R ! i \<noteq> 0" "\<not> buy_signal a b i (usd_balance st)" "\<not> sell_signal a b i (nis_balance st)"
  shows "loop_body D R a b i st =
     Inr (st\<lparr>portfolio_value :=
              portfolio_value st @ [usd_balance st + nis_balance st / R ! i]\<rparr>)"
proof (cases "0 < i")
  case True
  with assms show ?thesis
    by (auto simp add: loop_body_def buy_signal_def sell_signal_def truediv_def Let_def)
next
  case False
  with assms(1) show ?thesis
    by (simp add: loop_body_def truediv_def Let_def)
qed

lemma loop_body_returns:
  assumes "R ! i \<noteq> 0"
  shows "\<exists>st'. loop_body D R a b i st = Inr st'"
  using assms loop_body_buy loop_body_sell loop_body_hold by meson

lemma loop_body_zero_rate: "R ! i = 0 \<Longrightarrow> loop_body D R a b i st = Inl ZeroDivisionError"
  by (simp add: loop_body_def truediv_def Let_def)

lemma iterrows_returns:
  assumes "\<forall>i\<in>set is. R ! i \<noteq> 0"
  shows "\<exists>st'. iterrows D R a b is st = Inr st'"
  using assms
proof (induction "is" arbitrary: st)
  case Nil
  then show ?case by simp
next
  case (Cons i "is")
  then obtain st1 where "loop_body D R a b i st = Inr st1"
    using loop_body_returns by (metis list.set_intros(1))
  with Cons show ?case by simp
qed


lemma alternates_snoc:
  "alternates (xs @ [x]) = (alternates xs \<and> (xs = [] \<or> last xs \<noteq> x))"
  by (induction xs rule: alternates.induct) auto

lemma action_not_BUY: "(a \<noteq> BUY) = (a = SELL)"
  by (cases a) simp_all

lemma bt_inv_initial: "bt_inv (initial_state u)"
  by (simp add: bt_inv_def initial_state_def)

lemma loop_body_inv:
  assumes "bt_inv st" "loop_body D R a b i st = Inr st'"
  shows "bt_inv st'"
proof -
  have nz: "R ! i \<noteq> 0"
    using assms(2) loop_body_zero_rate [of R i D a b st] by auto
  consider (buy) "buy_signal a b i (usd_balance st)"
    | (sell) "sell_signal a b i (nis_balance st)"
    | (hold) "\<not> buy_signal a b i (usd_balance st)" "\<not> sell_signal a b i (nis_balance st)"
    by blast
  then show ?thesis
  proof cases
    case buy
    then have pos: "usd_balance st > 0" by (simp add: buy_signal_def)
    have st': "st' = st\<lparr>nis_balance := usd_balance st * R ! i,
            trades := trades st @
              [\<lparr>date = D ! i, action = BUY, rate = R ! i,
                amount_usd = usd_balance st, amount_nis = usd_balance st * R ! i\<rparr>],
            usd_balance := 0,
            portfolio_value := portfolio_value st @ [usd_balance st]\<rparr>"
      using loop_body_buy [OF nz buy, of D] assms(2) by simp
    show ?thesis
    proof (cases "trades st = []")
      case True
      with assms(1) show ?thesis by (simp add: st' bt_inv_def)
    next
      case False
      with assms(1) pos have "action (last (trades st)) \<noteq> BUY"
        by (auto simp: bt_inv_def split: if_splits)
      with assms(1) False show ?thesis
        by (simp add: st' bt_inv_def alternates_snoc last_map)
    qed
  next
    case sell
    then have pos: "nis_balance st > 0" by (simp add: sell_signal_def)
    have st': "st' = st\<lparr>usd_balance := nis_balance st / R ! i,
            trades := trades st @
              [\<lparr>date = D ! i, action = SELL, rate = R ! i,
                amount_usd = nis_balance st / R ! i, amount_nis = nis_balance st\<rparr>],
            nis_balance := 0,
            portfolio_value := portfolio_value st @ [nis_balance st / R ! i]\<rparr>"
      using loop_body_sell [OF nz sell, of D] assms(2) by simp
    show ?thesis
    proof (cases "trades st = []")
      case True
      with assms(1) pos show ?thesis by (simp add: bt_inv_def)
    next
      case False
      with assms(1) pos have "action (last (trades st)) = BUY"
        by (auto simp: bt_inv_def split: if_splits)
      with assms(1) False show ?thesis
        by (simp add: st' bt_inv_def alternates_snoc last_map)
    qed
  next
    case hold
    then have "st' = st\<lparr>portfolio_value :=
              portfolio_value st @ [usd_balance st + nis_balance st / R ! i]\<rparr>"
      using loop_body_hold [OF nz, of a b st D] assms(2) by simp
    with assms(1) show ?thesis by (simp add: bt_inv_def)
  qed
qed

lemma iterrows_inv:
  assumes "bt_inv st" "iterrows D R a b is st = Inr st'"
  shows "bt_inv st'"
  using assms
proof (induction "is" arbitrary: st)
  case Nil
  then show ?case by simp
next
  case (Cons i "is")
  then show ?case
    by (auto split: sum.splits dest: loop_body_inv)
qed

lemma bt_inv_first_BUY:
  assumes "bt_inv st" "trades st \<noteq> []"
  shows "action (hd (trades st)) = BUY"
  using assms by (simp add: bt_inv_def)


lemma iterrows_prefix_returns:
  assumes "k \<le> length R" "0 \<notin> set R"
  shows "\<exists>st. iterrows D R a b [0..<k] st0 = Inr st"
proof (rule iterrows_returns)
  show "\<forall>i\<in>set [0..<k]. R ! i \<noteq> 0"
    using assms by (auto simp: in_set_conv_nth)
qed

lemma loop_transition:
  assumes "i < length R" "length D = length R" "length a = length R" "length b = length R"
    and "0 \<notin> set R"
  shows "\<exists>st st'.
      iterrows D R a b [0..<i] (initial_state u) = Inr st
    \<and> iterrows D R a b [0..<Suc i] (initial_state u) = Inr st'
    \<and> trades st' = trades st
         @ (if buy_signal a b i (usd_balance st)
            then [\<lparr>date = D ! i, action = BUY, rate = R ! i,
                   amount_usd = usd_balance st, amount_nis = usd_balance st * R ! i\<rparr>]
            else [])
         @ (if sell_signal a b i (nis_balance st)
            then [\<lparr>date = D ! i, action = SELL, rate = R ! i,
                   amount_usd = nis_balance st / R ! i, amount_nis = nis_balance st\<rparr>]
            else [])
    \<and> \<not> (buy_signal a b i (usd_balance st) \<and> sell_signal a b i (nis_balance st))
    \<and> (buy_signal a b i (usd_balance st) \<longrightarrow>
          usd_balance st' = 0 \<and> nis_balance st' = usd_balance st * R ! i)
    \<and> (sell_signal a b i (nis_balance st) \<longrightarrow>
          nis_balance st' = 0 \<and> usd_balance st' = nis_balance st / R ! i)
    \<and> (i = 0 \<longrightarrow> trades st' = [])
    \<and> length (trades st') \<le> length (trades st) + 1"
proof -
  obtain st where st: "iterrows D R a b [0..<i] (initial_state u) = Inr st"
    using iterrows_prefix_returns [of i R D a b] assms(1,5) by auto
  have nz: "R ! i \<noteq> 0"
    using assms(1,5) by (metis nth_mem)
  have run: "iterrows D R a b [0..<Suc i] (initial_state u) = loop_body D R a b i st"
    using st by (simp only: iterrows_Suc sum.case)
  have start: "i = 0 \<Longrightarrow> trades st = []"
    using st by (auto simp add: initial_state_def)
  have no0: "i = 0 \<Longrightarrow> \<not> buy_signal a b i (usd_balance st) \<and> \<not> sell_signal a b i (nis_balance st)"
    by (simp add: buy_signal_def sell_signal_def)
  consider (buy) "buy_signal a b i (usd_balance st)"
    | (sell) "sell_signal a b i (nis_balance st)"
    | (hold) "\<not> buy_signal a b i (usd_balance st)" "\<not> sell_signal a b i (nis_balance st)"
    by blast
  then show ?thesis
  proof cases
    case buy
    then have ns: "\<not> sell_signal a b i (nis_balance st)" "i \<noteq> 0"
      using signals_exclusive no0 by blast+
    show ?thesis
      using st run buy ns loop_body_buy [OF nz buy, of D] by simp
  next
    case sell
    then have nb: "\<not> buy_signal a b i (usd_balance st)" "i \<noteq> 0"
      using signals_exclusive no0 by blast+
    show ?thesis
      using st run sell nb loop_body_sell [OF nz sell, of D] by simp
  next
    case hold
    then show ?thesis
      using st run start loop_body_hold [OF nz hold, of D] by simp
  qed
qed

lemma backtest_columns:
  "snd (backtest df a b u) = df\<lparr>SMA_7 := Some a, SMA_14 := Some b\<rparr>"
  by (simp add: backtest_def Let_def)

lemma backtest_result:
  "fst (backtest df a b u) =
     (case iterrows (Date df) (Rate df) a b [0..<length (rows df)] (initial_state u) of
        Inl e \<Rightarrow> Inl e
      | Inr st \<Rightarrow>
          if rows df = [] then Inl IndexError
          else Inr (usd_balance st + nis_balance st / last (Rate df) - u,
                    if u = 0 then None
                    else Some ((usd_balance st + nis_balance st / last (Rate df) - u) / u * 100),
                    trades st, portfolio_value st))"
  by (simp add: backtest_def Let_def Rate_def Date_def split: sum.splits)

lemma calculate_trading_profit_columns:
  "snd (calculate_trading_profit df u) =
     df\<lparr>SMA_7 := Some (rolling_mean 7 (Rate df)), SMA_14 := Some (rolling_mean 14 (Rate df))\<rparr>"
  by (simp add: calculate_trading_profit_def backtest_columns)

lemma calculate_trading_profit_result:
  "fst (calculate_trading_profit df u) =
     (case iterrows (Date df) (Rate df) (rolling_mean 7 (Rate df)) (rolling_mean 14 (Rate df))
             [0..<length (rows df)] (initial_state u) of
        Inl e \<Rightarrow> Inl e
      | Inr st \<Rightarrow>
          if rows df = [] then Inl IndexError
          else Inr (usd_balance st + nis_balance st / last (Rate df) - u,
                    if u = 0 then None
                    else Some ((usd_balance st + nis_balance st / last (Rate df) - u) / u * 100),
                    trades st, portfolio_value st))"
  by (simp only: calculate_trading_profit_def backtest_result)

lemma loop_body_extends:
  assumes "loop_body D R a b i st = Inr st'"
  shows "\<exists>new. trades st' = trades st @ new"
proof -
  have nz: "R ! i \<noteq> 0"
    using assms loop_body_zero_rate [of R i D a b st] by auto
  consider (buy) "buy_signal a b i (usd_balance st)"
    | (sell) "sell_signal a b i (nis_balance st)"
    | (hold) "\<not> buy_signal a b i (usd_balance st)" "\<not> sell_signal a b i (nis_balance st)"
    by blast
  then show ?thesis
  proof cases
    case buy
    then show ?thesis using loop_body_buy [OF nz buy, of D] assms by auto
  next
    case sell
    then show ?thesis using loop_body_sell [OF nz sell, of D] assms by auto
  next
    case hold
    then show ?thesis using loop_body_hold [OF nz hold, of D] assms by auto
  qed
qed

lemma iterrows_extends:
  assumes "iterrows D R a b is st = Inr st'"
  shows "\<exists>later. trades st' = trades st @ later"
  using assms
proof (induction "is" arbitrary: st)
  case Nil
  then show ?case by simp
next
  case (Cons i "is")
  then obtain st1 where one: "loop_body D R a b i st = Inr st1"
    and rest: "iterrows D R a b is st1 = Inr st'"
    by (auto split: sum.splits)
  from loop_body_extends [OF one] obtain new where "trades st1 = trades st @ new" by blast
  moreover from Cons.IH [OF rest] obtain later where "trades st' = trades st1 @ later" by blast
  ultimately show ?case by simp
qed

lemma iterrows_from_prefix:
  assumes "k \<le> n" "iterrows D R a b [0..<k] st0 = Inr st"
  shows "iterrows D R a b [0..<n] st0 = iterrows D R a b [k..<n] st"
proof -
  have "[0..<n] = [0..<k] @ [k..<n]"
    using assms(1) by (metis le_add_diff_inverse upt_add_eq_append zero_le)
  then show ?thesis
    using assms(2) by (simp add: iterrows_append)
qed

text \<open>
  C1. Take a series without a zero rate, whatever values the two assignments gave the
  columns SMA_7 and SMA_14, and an index \<open>i\<close>. Let \<open>st\<close> be the state in which the loop
  reaches the row \<open>i\<close>, \<open>st'\<close> the state in which it leaves it, and \<open>final\<close> the state
  after the last row; all three exist, and the backtest returns the trades of \<open>final\<close>,
  which begin with those of \<open>st'\<close>. The trades recorded at \<open>i\<close> are one BUY
  exactly when \<open>i > 0\<close>, the short average is above the long one at \<open>i\<close>, was not above
  it at \<open>i - 1\<close> and the USD balance is positive, and one SELL exactly when \<open>i > 0\<close>, the
  short average is below the long one at \<open>i\<close>, was not below it at \<open>i - 1\<close> and the
  local balance is positive. The two conditions exclude each other, so at most one
  trade is recorded per index, and none at index 0. A BUY turns the whole USD balance
  into local currency at the rate of the row, a SELL the whole local balance into USD.
\<close>

theorem crossover_transition:
  assumes "i < length (rows df)"
    and "length sma_7 = length (rows df)" "length sma_14 = length (rows df)"
    and "0 \<notin> set (Rate df)"
  shows "\<exists>st st' final later profit_usd profit_pct.
      iterrows (Date df) (Rate df) sma_7 sma_14 [0..<i] (initial_state u) = Inr st
    \<and> iterrows (Date df) (Rate df) sma_7 sma_14 [0..<Suc i] (initial_state u) = Inr st'
    \<and> iterrows (Date df) (Rate df) sma_7 sma_14 [0..<length (rows df)] (initial_state u)
          = Inr final
    \<and> backtest df sma_7 sma_14 u =
          (Inr (profit_usd, profit_pct, trades final, portfolio_value final),
           df\<lparr>SMA_7 := Some sma_7, SMA_14 := Some sma_14\<rparr>)
    \<and> trades final = trades st' @ later
    \<and> trades st' = trades st
         @ (if buy_signal sma_7 sma_14 i (usd_balance st)
            then [\<lparr>date = Date df ! i, action = BUY, rate = Rate df ! i,
                   amount_usd = usd_balance st,
                   amount_nis = usd_balance st * Rate df ! i\<rparr>]
            else [])
         @ (if sell_signal sma_7 sma_14 i (nis_balance st)
            then [\<lparr>date = Date df ! i, action = SELL, rate = Rate df ! i,
                   amount_usd = nis_balance st / Rate df ! i,
                   amount_nis = nis_balance st\<rparr>]
            else [])
    \<and> \<not> (buy_signal sma_7 sma_14 i (usd_balance st)
          \<and> sell_signal sma_7 sma_14 i (nis_balance st))
    \<and> (buy_signal sma_7 sma_14 i (usd_balance st) \<longrightarrow>
          usd_balance st' = 0 \<and> nis_balance st' = usd_balance st * Rate df ! i)
    \<and> (sell_signal sma_7 sma_14 i (nis_balance st) \<longrightarrow>
          nis_balance st' = 0 \<and> usd_balance st' = nis_balance st / Rate df ! i)
    \<and> (i = 0 \<longrightarrow> trades st' = [])
    \<and> length (trades st') \<le> length (trades st) + 1
    \<and> calculate_trading_profit df u =
          backtest df (rolling_mean 7 (Rate df)) (rolling_mean 14 (Rate df)) u"
proof -
  let ?D = "Date df" and ?R = "Rate df" and ?n = "length (rows df)"
  have len: "length ?R = ?n" "length ?D = ?n" by (simp_all add: Rate_def Date_def)
  have hyps: "i < length ?R" "length ?D = length ?R" "length sma_7 = length ?R"
    "length sma_14 = length ?R"
    using assms(1-3) len by simp_all
  from loop_transition [OF hyps assms(4), of u] obtain st st' where
    st: "iterrows ?D ?R sma_7 sma_14 [0..<i] (initial_state u) = Inr st"
    and st': "iterrows ?D ?R sma_7 sma_14 [0..<Suc i] (initial_state u) = Inr st'"
    and step: "trades st' = trades st
         @ (if buy_signal sma_7 sma_14 i (usd_balance st)
            then [\<lparr>date = ?D ! i, action = BUY, rate = ?R ! i,
                   amount_usd = usd_balance st, amount_nis = usd_balance st * ?R ! i\<rparr>]
            else [])
         @ (if sell_signal sma_7 sma_14 i (nis_balance st)
            then [\<lparr>date = ?D ! i, action = SELL, rate = ?R ! i,
                   amount_usd = nis_balance st / ?R ! i, amount_nis = nis_balance st\<rparr>]
            else [])
    \<and> \<not> (buy_signal sma_7 sma_14 i (usd_balance st) \<and> sell_signal sma_7 sma_14 i (nis_balance st))
    \<and> (buy_signal sma_7 sma_14 i (usd_balance st) \<longrightarrow>
          usd_balance st' = 0 \<and> nis_balance st' = usd_balance st * ?R ! i)
    \<and> (sell_signal sma_7 sma_14 i (nis_balance st) \<longrightarrow>
          nis_balance st' = 0 \<and> usd_balance st' = nis_balance st / ?R ! i)
    \<and> (i = 0 \<longrightarrow> trades st' = [])
    \<and> length (trades st') \<le> length (trades st) + 1"
    by blast
  obtain final where final: "iterrows ?D ?R sma_7 sma_14 [0..<?n] (initial_state u) = Inr final"
    using iterrows_prefix_returns [of ?n ?R ?D sma_7 sma_14] assms(4) len by auto
  have "iterrows ?D ?R sma_7 sma_14 [Suc i..<?n] st' = Inr final"
    using iterrows_from_prefix [of "Suc i" ?n, OF _ st'] assms(1) final by simp
  then obtain later where later: "trades final = trades st' @ later"
    using iterrows_extends by blast
  have rows: "rows df \<noteq> []" using assms(1) by auto
  have res: "fst (backtest df sma_7 sma_14 u) =
      Inr (usd_balance final + nis_balance final / last ?R - u,
           (if u = 0 then None
            else Some ((usd_balance final + nis_balance final / last ?R - u) / u * 100)),
           trades final, portfolio_value final)"
    using final rows by (simp add: backtest_result)
  have "backtest df sma_7 sma_14 u =
      (Inr (usd_balance final + nis_balance final / last ?R - u,
           (if u = 0 then None
            else Some ((usd_balance final + nis_balance final / last ?R - u) / u * 100)),
           trades final, portfolio_value final),
       df\<lparr>SMA_7 := Some sma_7, SMA_14 := Some sma_14\<rparr>)"
    using res backtest_columns [of df sma_7 sma_14 u] by (simp add: prod_eq_iff)
  moreover have "calculate_trading_profit df u =
          backtest df (rolling_mean 7 (Rate df)) (rolling_mean 14 (Rate df)) u"
    by (simp add: calculate_trading_profit_def)
  ultimately show ?thesis
    using st st' final later step by blast
qed

lemma calculate_trading_profit_returns:
  assumes "rows df \<noteq> []" "0 \<notin> set (Rate df)"
  shows "\<exists>res. fst (calculate_trading_profit df u) = Inr res"
proof -
  have "length (rows df) \<le> length (Rate df)" by (simp add: Rate_def)
  then obtain st where
    "iterrows (Date df) (Rate df) (rolling_mean 7 (Rate df)) (rolling_mean 14 (Rate df))
       [0..<length (rows df)] (initial_state u) = Inr st"
    using iterrows_prefix_returns assms(2) by blast
  with assms(1) show ?thesis
    by (simp add: calculate_trading_profit_result)
qed

text \<open>
  C4. Whenever the backtest returns, the actions of its trade list alternate (no two
  neighbours are equal) and the first trade, if there is one, is a BUY. It returns for
  every series with at least one row and no zero rate.
\<close>

theorem trades_alternate:
  "(fst (calculate_trading_profit df u) = Inr (profit_usd, profit_pct, ts, pv) \<longrightarrow>
      alternates (map action ts) \<and> (ts \<noteq> [] \<longrightarrow> action (hd ts) = BUY))
   \<and> (rows df \<noteq> [] \<and> 0 \<notin> set (Rate df) \<longrightarrow>
      (\<exists>res. fst (calculate_trading_profit df u) = Inr res))"
proof (intro conjI impI)
  assume res: "fst (calculate_trading_profit df u) = Inr (profit_usd, profit_pct, ts, pv)"
  then obtain st where
    run: "iterrows (Date df) (Rate df) (rolling_mean 7 (Rate df)) (rolling_mean 14 (Rate df))
       [0..<length (rows df)] (initial_state u) = Inr st"
    and ts: "ts = trades st"
    by (auto simp: calculate_trading_profit_result split: sum.splits if_splits)
  have inv: "bt_inv st"
    using bt_inv_initial run by (rule iterrows_inv)
  then show "alternates (map action ts)" by (simp add: ts bt_inv_def)
  show "action (hd ts) = BUY" if "ts \<noteq> []"
    using inv that unfolding ts by (rule bt_inv_first_BUY)
next
  assume "rows df \<noteq> [] \<and> 0 \<notin> set (Rate df)"
  then show "\<exists>res. fst (calculate_trading_profit df u) = Inr res"
    using calculate_trading_profit_returns by blast
qed


lemma buy_sell_run:
  "fst (calculate_trading_profit buy_sell_frame 1000) =
     Inr (1000, Some 100,
       [\<lparr>date = ''d07'', action = BUY, rate = 2, amount_usd = 1000, amount_nis = 2000\<rparr>,
        \<lparr>date = ''d10'', action = SELL, rate = 1, amount_usd = 2000, amount_nis = 2000\<rparr>],
       [1000, 1000, 1000, 1000, 1000, 1000, 1000, 1000, 2000, 2000, 2000])"
  by code_simp

lemma buy_sell_columns:
  "Date buy_sell_frame ! 7 = ''d07''" "Rate buy_sell_frame ! 7 = 2"
  "length (rows buy_sell_frame) = 11" "0 \<notin> set (Rate buy_sell_frame)"
  by (simp_all add: buy_sell_frame_def DataFrame_def Date_def Rate_def)

lemma buy_sell_before_7:
  "iterrows (Date buy_sell_frame) (Rate buy_sell_frame)
      (rolling_mean 7 (Rate buy_sell_frame)) (rolling_mean 14 (Rate buy_sell_frame))
      [0..<7] (initial_state 1000) =
     Inr \<lparr>usd_balance = 1000, nis_balance = 0, trades = [],
          portfolio_value = [1000, 1000, 1000, 1000, 1000, 1000, 1000]\<rparr>"
  by code_simp

lemma buy_sell_signal_7:
  "buy_signal (rolling_mean 7 (Rate buy_sell_frame)) (rolling_mean 14 (Rate buy_sell_frame)) 7 1000"
  "\<not> sell_signal (rolling_mean 7 (Rate buy_sell_frame)) (rolling_mean 14 (Rate buy_sell_frame)) 7 0"
  by code_simp+

theorem crossover_transition_witness:
  "\<exists>st st'.
      iterrows (Date buy_sell_frame) (Rate buy_sell_frame)
        (rolling_mean 7 (Rate buy_sell_frame)) (rolling_mean 14 (Rate buy_sell_frame))
        [0..<7] (initial_state 1000) = Inr st
    \<and> iterrows (Date buy_sell_frame) (Rate buy_sell_frame)
        (rolling_mean 7 (Rate buy_sell_frame)) (rolling_mean 14 (Rate buy_sell_frame))
        [0..<Suc 7] (initial_state 1000) = Inr st'
    \<and> trades st = []
    \<and> trades st' = [\<lparr>date = ''d07'', action = BUY, rate = 2,
                      amount_usd = 1000, amount_nis = 2000\<rparr>]
    \<and> usd_balance st' = 0 \<and> nis_balance st' = 2000
    \<and> fst (calculate_trading_profit buy_sell_frame 1000) =
         Inr (1000, Some 100,
           [\<lparr>date = ''d07'', action = BUY, rate = 2, amount_usd = 1000, amount_nis = 2000\<rparr>,
            \<lparr>date = ''d10'', action = SELL, rate = 1, amount_usd = 2000, amount_nis = 2000\<rparr>],
           [1000, 1000, 1000, 1000, 1000, 1000, 1000, 1000, 2000, 2000, 2000])"
proof -
  let ?df = buy_sell_frame
  let ?a = "rolling_mean 7 (Rate ?df)" and ?b = "rolling_mean 14 (Rate ?df)"
  have hyps: "7 < length (rows ?df)" "length ?a = length (rows ?df)"
    "length ?b = length (rows ?df)" "0 \<notin> set (Rate ?df)"
  proof -
    have "length (Rate ?df) = length (rows ?df)" by (simp add: Rate_def)
    then show "length ?a = length (rows ?df)" "length ?b = length (rows ?df)"
      by (simp_all add: rolling_mean_def length_rolling)
    show "7 < length (rows ?df)" "0 \<notin> set (Rate ?df)"
      by (simp_all add: buy_sell_columns)
  qed
  from crossover_transition [OF hyps, of 1000] obtain st st' final later profit_usd profit_pct
    where all: "iterrows (Date ?df) (Rate ?df) ?a ?b [0..<7] (initial_state 1000) = Inr st
    \<and> iterrows (Date ?df) (Rate ?df) ?a ?b [0..<Suc 7] (initial_state 1000) = Inr st'
    \<and> iterrows (Date ?df) (Rate ?df) ?a ?b [0..<length (rows ?df)] (initial_state 1000)
          = Inr final
    \<and> backtest ?df ?a ?b 1000 =
          (Inr (profit_usd, profit_pct, trades final, portfolio_value final),
           ?df\<lparr>SMA_7 := Some ?a, SMA_14 := Some ?b\<rparr>)
    \<and> trades final = trades st' @ later
    \<and> trades st' = trades st
         @ (if buy_signal ?a ?b 7 (usd_balance st)
            then [\<lparr>date = Date ?df ! 7, action = BUY, rate = Rate ?df ! 7,
                   amount_usd = usd_balance st,
                   amount_nis = usd_balance st * Rate ?df ! 7\<rparr>]
            else [])
         @ (if sell_signal ?a ?b 7 (nis_balance st)
            then [\<lparr>date = Date ?df ! 7, action = SELL, rate = Rate ?df ! 7,
                   amount_usd = nis_balance st / Rate ?df ! 7,
                   amount_nis = nis_balance st\<rparr>]
            else [])
    \<and> \<not> (buy_signal ?a ?b 7 (usd_balance st) \<and> sell_signal ?a ?b 7 (nis_balance st))
    \<and> (buy_signal ?a ?b 7 (usd_balance st) \<longrightarrow>
          usd_balance st' = 0 \<and> nis_balance st' = usd_balance st * Rate ?df ! 7)
    \<and> (sell_signal ?a ?b 7 (nis_balance st) \<longrightarrow>
          nis_balance st' = 0 \<and> usd_balance st' = nis_balance st / Rate ?df ! 7)
    \<and> (7 = (0::nat) \<longrightarrow> trades st' = [])
    \<and> length (trades st') \<le> length (trades st) + 1
    \<and> calculate_trading_profit ?df 1000 = backtest ?df ?a ?b 1000"
    by (elim exE) (rule that)
  from all have st: "iterrows (Date ?df) (Rate ?df) ?a ?b [0..<7] (initial_state 1000) = Inr st"
    and st': "iterrows (Date ?df) (Rate ?df) ?a ?b [0..<Suc 7] (initial_state 1000) = Inr st'"
    and res: "backtest ?df ?a ?b 1000 =
          (Inr (profit_usd, profit_pct, trades final, portfolio_value final),
           ?df\<lparr>SMA_7 := Some ?a, SMA_14 := Some ?b\<rparr>)"
    and tr: "trades st' = trades st
         @ (if buy_signal ?a ?b 7 (usd_balance st)
            then [\<lparr>date = Date ?df ! 7, action = BUY, rate = Rate ?df ! 7,
                   amount_usd = usd_balance st,
                   amount_nis = usd_balance st * Rate ?df ! 7\<rparr>]
            else [])
         @ (if sell_signal ?a ?b 7 (nis_balance st)
            then [\<lparr>date = Date ?df ! 7, action = SELL, rate = Rate ?df ! 7,
                   amount_usd = nis_balance st / Rate ?df ! 7,
                   amount_nis = nis_balance st\<rparr>]
            else [])"
    and bal: "buy_signal ?a ?b 7 (usd_balance st) \<longrightarrow>
          usd_balance st' = 0 \<and> nis_balance st' = usd_balance st * Rate ?df ! 7"
    and whole: "calculate_trading_profit ?df 1000 = backtest ?df ?a ?b 1000"
    by blast+
  from st buy_sell_before_7 have eq: "st = \<lparr>usd_balance = 1000, nis_balance = 0, trades = [],
          portfolio_value = [1000, 1000, 1000, 1000, 1000, 1000, 1000]\<rparr>"
    by simp
  have sig: "buy_signal ?a ?b 7 (usd_balance st)" "\<not> sell_signal ?a ?b 7 (nis_balance st)"
    using buy_sell_signal_7 by (simp_all add: eq)
  have t': "trades st' = [\<lparr>date = ''d07'', action = BUY, rate = 2,
                      amount_usd = 1000, amount_nis = 2000\<rparr>]"
    using tr sig by (simp add: eq buy_sell_columns)
  have b': "usd_balance st' = 0 \<and> nis_balance st' = 2000"
    using bal sig by (simp add: eq buy_sell_columns)
  have "fst (calculate_trading_profit ?df 1000) =
      Inr (profit_usd, profit_pct, trades final, portfolio_value final)"
    using whole res by simp
  with buy_sell_run have "fst (calculate_trading_profit ?df 1000) =
         Inr (1000, Some 100,
           [\<lparr>date = ''d07'', action = BUY, rate = 2, amount_usd = 1000, amount_nis = 2000\<rparr>,
            \<lparr>date = ''d10'', action = SELL, rate = 1, amount_usd = 2000, amount_nis = 2000\<rparr>],
           [1000, 1000, 1000, 1000, 1000, 1000, 1000, 1000, 2000, 2000, 2000])"
    by simp
  moreover have "trades st = []" by (simp add: eq)
  ultimately show ?thesis using st st' t' b' by blast
qed

theorem trades_alternate_witness:
  "\<exists>profit_usd profit_pct ts pv.
      fst (calculate_trading_profit buy_sell_frame 1000) = Inr (profit_usd, profit_pct, ts, pv)
    \<and> map action ts = [BUY, SELL]
    \<and> alternates (map action ts) \<and> ts \<noteq> [] \<and> action (hd ts) = BUY"
proof -
  let ?ts = "[\<lparr>date = ''d07'', action = BUY, rate = 2, amount_usd = 1000, amount_nis = 2000\<rparr>,
        \<lparr>date = ''d10'', action = SELL, rate = 1, amount_usd = 2000, amount_nis = 2000\<rparr>]"
  have "alternates (map action ?ts) \<and> (?ts \<noteq> [] \<longrightarrow> action (hd ?ts) = BUY)"
    using trades_alternate [of buy_sell_frame 1000 1000 "Some 100" ?ts
        "[1000, 1000, 1000, 1000, 1000, 1000, 1000, 1000, 2000, 2000, 2000]"]
      buy_sell_run by blast
  then show ?thesis using buy_sell_run by simp
qed

section \<open>The indicator columns\<close>

text \<open>
  C2. The backtest assigns the columns SMA_7 and SMA_14. Both are as long as the
  series, and at every index \<open>i\<close> the short one is the arithmetic mean of the rates at
  the indices \<open>max(0, i - 6)\<close> to \<open>i\<close>, the long one of those at \<open>max(0, i - 13)\<close> to
  \<open>i\<close>: windows of \<open>min(7, i + 1)\<close> and \<open>min(14, i + 1)\<close> values, cut at the start of
  the series.
\<close>

theorem rolling_mean_windows:
  "SMA_7 (snd (calculate_trading_profit df u)) = Some (rolling_mean 7 (Rate df))
   \<and> SMA_14 (snd (calculate_trading_profit df u)) = Some (rolling_mean 14 (Rate df))
   \<and> length (rolling_mean 7 (Rate df)) = length (Rate df)
   \<and> length (rolling_mean 14 (Rate df)) = length (Rate df)
   \<and> (\<forall>i < length (Rate df).
         rolling_mean 7 (Rate df) ! i = mean (trailing_window 7 (Rate df) i)
       \<and> rolling_mean 14 (Rate df) ! i = mean (trailing_window 14 (Rate df) i)
       \<and> length (trailing_window 7 (Rate df) i) = min 7 (i + 1)
       \<and> length (trailing_window 14 (Rate df) i) = min 14 (i + 1))"
proof -
  have win: "rolling_mean w xs ! i = mean (trailing_window w xs i)
      \<and> length (trailing_window w xs i) = min w (i + 1)"
    if "0 < w" "i < length xs" for w i and xs :: "real list"
  proof -
    have "rolling_mean w xs ! i = mean (lastn w ([] @ take (Suc i) xs))"
      unfolding rolling_mean_def using that by (intro rolling_nth) simp_all
    then have "rolling_mean w xs ! i = mean (trailing_window w xs i)"
      using lastn_take_window [OF that] by simp
    moreover have "length (trailing_window w xs i) = length (lastn w (take (Suc i) xs))"
      using lastn_take_window [OF that] by simp
    then have "length (trailing_window w xs i) = min w (i + 1)"
      using that(2) by (simp add: length_lastn)
    ultimately show ?thesis by simp
  qed
  show ?thesis
    using win [of 7] win [of 14]
    by (simp add: calculate_trading_profit_columns rolling_mean_def length_rolling)
qed

lemma Rate_one_to_fifteen:
  "Rate one_to_fifteen = [1, 2, 3, 4, 5, 6, 7, 8, 9, 10, 11, 12, 13, 14, 15]"
  by (simp add: one_to_fifteen_def DataFrame_def Rate_def)

theorem rolling_mean_windows_witness:
  "length (rolling_mean 7 (Rate one_to_fifteen)) = 15
   \<and> length (rolling_mean 14 (Rate one_to_fifteen)) = 15
   \<and> rolling_mean 7 (Rate one_to_fifteen) ! 0 = 1
   \<and> rolling_mean 7 (Rate one_to_fifteen) ! 5 = 7 / 2
   \<and> rolling_mean 7 (Rate one_to_fifteen) ! 6 = 4
   \<and> rolling_mean 7 (Rate one_to_fifteen) ! 14 = 12
   \<and> rolling_mean 14 (Rate one_to_fifteen) ! 12 = 7
   \<and> rolling_mean 14 (Rate one_to_fifteen) ! 13 = 15 / 2
   \<and> rolling_mean 14 (Rate one_to_fifteen) ! 14 = 17 / 2"
proof -
  note inst = rolling_mean_windows [of one_to_fifteen 1000]
  have len: "length (Rate one_to_fifteen) = 15" by (simp add: Rate_one_to_fifteen)
  have at: "rolling_mean 7 (Rate one_to_fifteen) ! i = mean (trailing_window 7 (Rate one_to_fifteen) i)
      \<and> rolling_mean 14 (Rate one_to_fifteen) ! i = mean (trailing_window 14 (Rate one_to_fifteen) i)"
    if "i < 15" for i
    using inst that len by simp
  have "length (rolling_mean 7 (Rate one_to_fifteen)) = 15"
    "length (rolling_mean 14 (Rate one_to_fifteen)) = 15"
    using inst len by simp_all
  moreover have "rolling_mean 7 (Rate one_to_fifteen) ! 0 = 1"
    using at [of 0] by (simp add: Rate_one_to_fifteen trailing_window_def mean_def)
  moreover have "rolling_mean 7 (Rate one_to_fifteen) ! 5 = 7 / 2"
    using at [of 5] by (simp add: Rate_one_to_fifteen trailing_window_def mean_def upt_conv_Cons)
  moreover have "rolling_mean 7 (Rate one_to_fifteen) ! 6 = 4"
    using at [of 6] by (simp add: Rate_one_to_fifteen trailing_window_def mean_def upt_conv_Cons)
  moreover have "rolling_mean 7 (Rate one_to_fifteen) ! 14 = 12"
    using at [of 14] by (simp add: Rate_one_to_fifteen trailing_window_def mean_def upt_conv_Cons)
  moreover have "rolling_mean 14 (Rate one_to_fifteen) ! 12 = 7"
    using at [of 12] by (simp add: Rate_one_to_fifteen trailing_window_def mean_def upt_conv_Cons)
  moreover have "rolling_mean 14 (Rate one_to_fifteen) ! 13 = 15 / 2"
    using at [of 13] by (simp add: Rate_one_to_fifteen trailing_window_def mean_def upt_conv_Cons)
  moreover have "rolling_mean 14 (Rate one_to_fifteen) ! 14 = 17 / 2"
    using at [of 14] by (simp add: Rate_one_to_fifteen trailing_window_def mean_def upt_conv_Cons)
  ultimately show ?thesis by simp
qed

section \<open>A flat market\<close>

lemma loop_body_equal_averages:
  assumes "a ! i = b ! i" "loop_body D R a b i st = Inr st'"
  shows "st' = st\<lparr>portfolio_value :=
              portfolio_value st @ [usd_balance st + nis_balance st / R ! i]\<rparr>"
proof -
  have nz: "R ! i \<noteq> 0"
    using assms(2) loop_body_zero_rate [of R i D a b st] by auto
  have "\<not> buy_signal a b i (usd_balance st)" "\<not> sell_signal a b i (nis_balance st)"
    using assms(1) by (simp_all add: buy_signal_def sell_signal_def)
  then show ?thesis
    using loop_body_hold [OF nz, of a b st D] assms(2) by simp
qed

lemma flat_prefix:
  assumes "k \<le> length R" "0 \<notin> set R" "\<forall>i<k. a ! i = b ! i"
  shows "iterrows D R a b [0..<k] (initial_state u) =
     Inr \<lparr>usd_balance = u, nis_balance = 0, trades = [], portfolio_value = replicate k u\<rparr>"
  using assms
proof (induction k)
  case 0
  then show ?case by (simp add: initial_state_def)
next
  case (Suc k)
  let ?st = "\<lparr>usd_balance = u, nis_balance = 0, trades = [], portfolio_value = replicate k u\<rparr>"
  have run: "iterrows D R a b [0..<k] (initial_state u) = Inr ?st"
    using Suc by simp
  have nz: "R ! k \<noteq> 0"
    using Suc.prems(1,2) by (metis Suc_le_lessD nth_mem)
  have eq: "a ! k = b ! k" using Suc.prems(3) by simp
  obtain st' where st': "loop_body D R a b k ?st = Inr st'"
    using loop_body_returns [OF nz] by blast
  have "st' = ?st\<lparr>portfolio_value := portfolio_value ?st @ [usd_balance ?st + nis_balance ?st / R ! k]\<rparr>"
    using eq st' by (rule loop_body_equal_averages)
  then have "st' = \<lparr>usd_balance = u, nis_balance = 0, trades = [], portfolio_value = replicate (Suc k) u\<rparr>"
    by (simp add: replicate_append_same)
  with run st' show ?case
    by (simp only: iterrows_Suc sum.case)
qed

text \<open>
  C7. Take a series with at least one row and no zero rate. Whatever values the two
  assignments gave the columns SMA_7 and SMA_14, if the two columns are equal at every
  index then the backtest returns no trade and a portfolio trajectory that is the
  initial amount at every index. Equal averages at an index never trade there: the loop
  body leaves the trades and both balances as they are. (Two columns over at most seven
  rates are equal: pandas computes both by the same operations.)
\<close>

theorem flat_market:
  "(rows df \<noteq> [] \<and> 0 \<notin> set (Rate df)
      \<and> length sma_7 = length (rows df) \<and> length sma_14 = length (rows df)
      \<and> (\<forall>i < length (rows df). sma_7 ! i = sma_14 ! i)
     \<longrightarrow> backtest df sma_7 sma_14 u =
           (Inr (0, (if u = 0 then None else Some 0), [], replicate (length (rows df)) u),
            df\<lparr>SMA_7 := Some sma_7, SMA_14 := Some sma_14\<rparr>))
   \<and> (a ! i = b ! i \<and> loop_body D R a b i st = Inr st'
     \<longrightarrow> trades st' = trades st \<and> usd_balance st' = usd_balance st
         \<and> nis_balance st' = nis_balance st)"
proof (intro conjI impI)
  assume h: "rows df \<noteq> [] \<and> 0 \<notin> set (Rate df)
      \<and> length sma_7 = length (rows df) \<and> length sma_14 = length (rows df)
      \<and> (\<forall>i < length (rows df). sma_7 ! i = sma_14 ! i)"
  have len: "length (rows df) = length (Rate df)" by (simp add: Rate_def)
  have "iterrows (Date df) (Rate df) sma_7 sma_14 [0..<length (rows df)] (initial_state u) =
        Inr \<lparr>usd_balance = u, nis_balance = 0, trades = [],
             portfolio_value = replicate (length (rows df)) u\<rparr>"
    using h len by (intro flat_prefix) simp_all
  with h have "fst (backtest df sma_7 sma_14 u) =
           Inr (0, (if u = 0 then None else Some 0), [], replicate (length (rows df)) u)"
    by (simp add: backtest_result)
  then show "backtest df sma_7 sma_14 u =
           (Inr (0, (if u = 0 then None else Some 0), [], replicate (length (rows df)) u),
            df\<lparr>SMA_7 := Some sma_7, SMA_14 := Some sma_14\<rparr>)"
    using backtest_columns [of df sma_7 sma_14 u] by (simp add: prod_eq_iff)
next
  assume "a ! i = b ! i \<and> loop_body D R a b i st = Inr st'"
  then have "st' = st\<lparr>portfolio_value :=
              portfolio_value st @ [usd_balance st + nis_balance st / R ! i]\<rparr>"
    using loop_body_equal_averages by blast
  then show "trades st' = trades st" "usd_balance st' = usd_balance st"
    "nis_balance st' = nis_balance st"
    by simp_all
qed

theorem flat_market_witness:
  "rows five_points \<noteq> [] \<and> 0 \<notin> set (Rate five_points)
   \<and> rolling_mean 7 (Rate five_points) = [3, 121 / 40, 61 / 20, 1217 / 400, 378 / 125]
   \<and> rolling_mean 14 (Rate five_points) = [3, 121 / 40, 61 / 20, 1217 / 400, 378 / 125]
   \<and> calculate_trading_profit five_points 1000 =
       (Inr (0, Some 0, [], [1000, 1000, 1000, 1000, 1000]),
        five_points\<lparr>SMA_7 := Some [3, 121 / 40, 61 / 20, 1217 / 400, 378 / 125],
                    SMA_14 := Some [3, 121 / 40, 61 / 20, 1217 / 400, 378 / 125]\<rparr>)"
proof -
  let ?c = "[3, 121 / 40, 61 / 20, 1217 / 400, 378 / 125] :: real list"
  have rate: "Rate five_points = [3.00, 3.05, 3.10, 3.02, 2.95]"
    by (simp add: five_points_def DataFrame_def Rate_def)
  have r: "rows five_points \<noteq> []" by (simp add: five_points_def DataFrame_def)
  have len: "length (rows five_points) = 5" by (simp add: five_points_def DataFrame_def)
  have nz: "0 \<notin> set (Rate five_points)" by (simp add: rate)
  have s7: "rolling_mean 7 (Rate five_points) = ?c"
    by (simp add: rate rolling_mean_def mean_def)
  have s14: "rolling_mean 14 (Rate five_points) = ?c"
    by (simp add: rate rolling_mean_def mean_def)
  have hyp: "rows five_points \<noteq> [] \<and> 0 \<notin> set (Rate five_points)
      \<and> length ?c = length (rows five_points) \<and> length ?c = length (rows five_points)
      \<and> (\<forall>i < length (rows five_points). ?c ! i = ?c ! i)"
    using r nz len by simp
  have "backtest five_points ?c ?c 1000 =
      (Inr (0, (if (1000::real) = 0 then None else Some 0), [],
            replicate (length (rows five_points)) 1000),
       five_points\<lparr>SMA_7 := Some ?c, SMA_14 := Some ?c\<rparr>)"
    using flat_market [of five_points ?c ?c 1000] hyp by blast
  moreover have "replicate (length (rows five_points)) (1000::real)
      = [1000, 1000, 1000, 1000, 1000]"
    by (simp add: len numeral_eq_Suc)
  ultimately have "backtest five_points ?c ?c 1000 =
       (Inr (0, Some 0, [], [1000, 1000, 1000, 1000, 1000]),
        five_points\<lparr>SMA_7 := Some ?c, SMA_14 := Some ?c\<rparr>)"
    by simp
  then have "calculate_trading_profit five_points 1000 =
       (Inr (0, Some 0, [], [1000, 1000, 1000, 1000, 1000]),
        five_points\<lparr>SMA_7 := Some ?c, SMA_14 := Some ?c\<rparr>)"
    by (simp only: calculate_trading_profit_def s7 s14)
  then show ?thesis using r nz s7 s14 by simp
qed

section \<open>The effect on the caller's frame\<close>

text \<open>
  C9 as stated fails: after the backtest the caller's frame has two more columns.
\<close>

theorem input_frame_changed:
  "SMA_7 one_point = None \<and> SMA_14 one_point = None
   \<and> SMA_7 (snd (calculate_trading_profit one_point 1000)) = Some [3]
   \<and> SMA_14 (snd (calculate_trading_profit one_point 1000)) = Some [3]
   \<and> snd (calculate_trading_profit one_point 1000) \<noteq> one_point"
proof -
  have "SMA_7 one_point = None" "SMA_14 one_point = None"
    by (simp_all add: one_point_def DataFrame_def)
  moreover have "SMA_7 (snd (calculate_trading_profit one_point 1000)) = Some [3]"
    "SMA_14 (snd (calculate_trading_profit one_point 1000)) = Some [3]"
    by (simp_all add: calculate_trading_profit_columns one_point_def DataFrame_def Rate_def
        rolling_mean_def mean_def)
  ultimately show ?thesis by auto
qed

lemma backtest_reads_rows_only:
  "calculate_trading_profit (snd (calculate_trading_profit df u)) u' =
     (fst (calculate_trading_profit df u'), snd (calculate_trading_profit df u))"
proof -
  let ?df' = "snd (calculate_trading_profit df u)"
  have cols: "?df' = df\<lparr>SMA_7 := Some (rolling_mean 7 (Rate df)),
      SMA_14 := Some (rolling_mean 14 (Rate df))\<rparr>"
    by (rule calculate_trading_profit_columns)
  have same: "rows ?df' = rows df" "Rate ?df' = Rate df" "Date ?df' = Date df"
    by (simp_all add: cols Rate_def Date_def)
  have "fst (calculate_trading_profit ?df' u') = fst (calculate_trading_profit df u')"
    by (simp only: calculate_trading_profit_result same)
  moreover have "snd (calculate_trading_profit ?df' u') = ?df'"
    unfolding calculate_trading_profit_columns [of ?df'] same by (simp add: cols)
  ultimately show ?thesis by (simp add: prod_eq_iff)
qed

text \<open>
  C9, as amended. The backtest leaves the rows of the caller's frame, and so its Date
  and Rate columns, as they are; it assigns the two indicator columns SMA_7 and SMA_14
  of that frame, adding them where they are absent. It reads the rows only: run again
  on the frame it has changed, it returns what it returns on the original frame and
  leaves the changed frame as it is.
\<close>

theorem indicator_columns_added:
  "snd (calculate_trading_profit df u) =
     df\<lparr>SMA_7 := Some (rolling_mean 7 (Rate df)), SMA_14 := Some (rolling_mean 14 (Rate df))\<rparr>
   \<and> rows (snd (calculate_trading_profit df u)) = rows df
   \<and> Date (snd (calculate_trading_profit df u)) = Date df
   \<and> Rate (snd (calculate_trading_profit df u)) = Rate df
   \<and> calculate_trading_profit (snd (calculate_trading_profit df u)) u' =
       (fst (calculate_trading_profit df u'), snd (calculate_trading_profit df u))"
proof (intro conjI)
  show "snd (calculate_trading_profit df u) =
     df\<lparr>SMA_7 := Some (rolling_mean 7 (Rate df)), SMA_14 := Some (rolling_mean 14 (Rate df))\<rparr>"
    by (rule calculate_trading_profit_columns)
  show "rows (snd (calculate_trading_profit df u)) = rows df"
    "Date (snd (calculate_trading_profit df u)) = Date df"
    "Rate (snd (calculate_trading_profit df u)) = Rate df"
    by (simp_all add: calculate_trading_profit_columns Date_def Rate_def)
  show "calculate_trading_profit (snd (calculate_trading_profit df u)) u' =
       (fst (calculate_trading_profit df u'), snd (calculate_trading_profit df u))"
    by (rule backtest_reads_rows_only)
qed

theorem indicator_columns_added_witness:
  "snd (calculate_trading_profit one_point 1000) =
     \<lparr>rows = [(''2024-01-01'', 3)], SMA_7 = Some [3], SMA_14 = Some [3]\<rparr>"
  using indicator_columns_added [of one_point 1000]
  by (simp add: one_point_def DataFrame_def Rate_def rolling_mean_def mean_def)

section \<open>Demo data\<close>

lemma generate_demo_data_eq:
  "generate_demo_data w =
     (DataFrame (map (\<lambda>i. (strftime_ymd (today w - 30 + int i), demo_rate i)) [0..<30]),
      JNum (demo_rate 29), bar_chart @ '' Demo mode (realistic rates)'')"
proof -
  have "last (map (\<lambda>i. (strftime_ymd (today w - 30 + int i), demo_rate i)) [0..<30])
      = (strftime_ymd (today w - 30 + int 29), demo_rate 29)"
    by (simp add: last_map)
  then show ?thesis
    by (simp add: generate_demo_data_def Let_def)
qed

lemma demo_rows: "length (rows (fst (generate_demo_data w))) = 30"
  by (simp add: generate_demo_data_eq DataFrame_def)

lemma demo_Rate: "Rate (fst (generate_demo_data w)) = map demo_rate [0..<30]"
  by (simp add: generate_demo_data_eq DataFrame_def Rate_def comp_def del: upt_Suc)

lemma demo_Date:
  "Date (fst (generate_demo_data w)) = map (\<lambda>i. strftime_ymd (today w - 30 + int i)) [0..<30]"
  by (simp add: generate_demo_data_eq DataFrame_def Date_def comp_def del: upt_Suc)

lemma demo_rate_first: "demo_rate 0 = 3.0725"
  by (simp add: demo_rate_def py_round_def round_half_even_def)

lemma demo_rate_last: "demo_rate 29 = 3.107"
  by (simp add: demo_rate_def py_round_def round_half_even_def)

text \<open>
  C5, as amended. The demo generator uses no randomness and takes no argument. The rate
  of its point \<open>i\<close> is 3.09 + 0.0005 (i - 15) + 0.01 ((i mod 5) - 2) / 2 rounded to four
  decimals, a function of the index alone: the Rate column is the same in every
  invocation. The date of the point \<open>i\<close> is the day \<open>30 - i\<close> days before the clock's, so
  the Date column depends on when the generator runs.
\<close>

theorem demo_rates_by_index:
  "Rate (fst (generate_demo_data w)) = map demo_rate [0..<30]
   \<and> demo_rate i = py_round (spec_demo_rate i) 4
   \<and> Date (fst (generate_demo_data w)) = map (\<lambda>i. strftime_ymd (today w - 30 + int i)) [0..<30]
   \<and> Rate (fst (generate_demo_data w)) = Rate (fst (generate_demo_data w'))"
proof -
  have "demo_rate i = py_round (spec_demo_rate i) 4"
    by (simp add: demo_rate_def spec_demo_rate_def Let_def)
  then show ?thesis
    by (simp add: demo_Rate demo_Date del: upt_Suc)
qed

theorem demo_rates_by_index_witness:
  "Rate (fst (generate_demo_data (offline No_File new_year_2024))) ! 0 = 3.0725
   \<and> Rate (fst (generate_demo_data (offline No_File new_year_2024))) ! 29 = 3.107
   \<and> Rate (fst (generate_demo_data (offline No_File new_year_2024)))
     = Rate (fst (generate_demo_data (offline No_File (new_year_2024 + 86400000000))))"
proof -
  note inst = demo_rates_by_index [of "offline No_File new_year_2024" 0
      "offline No_File (new_year_2024 + 86400000000)"]
  from inst have cols: "Rate (fst (generate_demo_data (offline No_File new_year_2024)))
      = map demo_rate [0..<30]"
    by (rule conjunct1)
  from inst have same: "Rate (fst (generate_demo_data (offline No_File new_year_2024)))
      = Rate (fst (generate_demo_data (offline No_File (new_year_2024 + 86400000000))))"
    by (elim conjE)
  have "map demo_rate [0..<30] ! 0 = demo_rate 0" "map demo_rate [0..<30] ! 29 = demo_rate 29"
    by (simp_all del: upt_Suc)
  with cols have "Rate (fst (generate_demo_data (offline No_File new_year_2024))) ! 0 = 3.0725"
    "Rate (fst (generate_demo_data (offline No_File new_year_2024))) ! 29 = 3.107"
    by (simp_all only: demo_rate_first demo_rate_last)
  with same show ?thesis
    by (intro conjI)
qed

lemma today_new_year: "today (offline file new_year_2024) = 738886"
  by (simp add: today_def offline_def new_year_2024_def)

lemma today_next_day: "today (offline file (new_year_2024 + 86400000000)) = 738887"
  by (simp add: today_def offline_def new_year_2024_def)

text \<open>
  C5 as stated fails: two invocations on different days give different series.
\<close>

theorem demo_dates_follow_clock:
  "Date (fst (generate_demo_data (offline No_File new_year_2024))) ! 0 = ''2023-12-02''
   \<and> Date (fst (generate_demo_data (offline No_File (new_year_2024 + 86400000000)))) ! 0 = ''2023-12-03''
   \<and> generate_demo_data (offline No_File new_year_2024)
       \<noteq> generate_demo_data (offline No_File (new_year_2024 + 86400000000))"
proof -
  have a: "Date (fst (generate_demo_data (offline No_File new_year_2024))) ! 0 = ''2023-12-02''"
    by (simp add: demo_Date today_new_year strftime_ymd_def ord2ymd_def days_before_month_def
        days_in_month_def pad2_def Let_def del: upt_Suc)
  have b: "Date (fst (generate_demo_data (offline No_File (new_year_2024 + 86400000000)))) ! 0 = ''2023-12-03''"
    by (simp add: demo_Date today_next_day strftime_ymd_def ord2ymd_def days_before_month_def
        days_in_month_def pad2_def Let_def del: upt_Suc)
  from a b have "generate_demo_data (offline No_File new_year_2024)
       \<noteq> generate_demo_data (offline No_File (new_year_2024 + 86400000000))"
    by auto
  with a b show ?thesis by simp
qed

section \<open>The source chain\<close>

lemma if_rate_boi:
  "if_rate (fetch_from_bank_of_israel w) =
     (case boi_usd w of
        Some (r, d) \<Rightarrow> if r \<noteq> 0 then Some (JNum r, d, ''Bank of Israel'') else None
      | None \<Rightarrow> None)"
  by (simp add: if_rate_def fetch_from_bank_of_israel_def split: option.splits)

lemma if_rate_host:
  "if_rate (fetch_from_exchangerate_host w) =
     (case host_ils w of
        Some (r, d) \<Rightarrow> if truthy r then Some (r, d, ''ExchangeRate.host'') else None
      | None \<Rightarrow> None)"
  by (simp add: if_rate_def fetch_from_exchangerate_host_def split: option.splits)

lemma if_rate_api:
  "if_rate (fetch_from_exchangerate_api w) =
     (case er_api_ils w of
        Some (r, d) \<Rightarrow> if truthy r then Some (r, d, ''ExchangeRate-API'') else None
      | None \<Rightarrow> None)"
  by (simp add: if_rate_def fetch_from_exchangerate_api_def split: option.splits)

lemma answers_boi: "answers (boi_reply w) = (\<exists>r d. boi_usd w = Some (r, d) \<and> r \<noteq> 0)"
  by (auto simp: answers_def boi_reply_def split: option.splits)

lemma answers_Some: "answers reply = (\<exists>r d. reply = Some (r, d) \<and> truthy r)"
  by (auto simp: answers_def split: option.splits)

text \<open>
  C8 as stated fails: the label of a result of ExchangeRate.host has no rank in
  parentheses, and a Bank of Israel result with the rate 0 is passed over.
\<close>

theorem source_chain_counterexample:
  "get_current_rate host_only =
     ((JNum 3.1, JStr ''2024-01-01'', check_mark @ '' ExchangeRate.host''),
      [Bank_of_Israel, ExchangeRate_host])
   \<and> \<not> rank_labelled ''ExchangeRate.host'' (snd (snd (fst (get_current_rate host_only))))
   \<and> boi_usd boi_zero = Some (0, JStr ''2024-01-01'')
   \<and> get_current_rate boi_zero =
     ((JNum 3.1, JStr ''2024-01-01'', check_mark @ '' ExchangeRate.host''),
      [Bank_of_Israel, ExchangeRate_host])"
  by (simp add: get_current_rate_def if_rate_boi if_rate_host host_only_def boi_zero_def
      offline_def rank_labelled_def check_mark_def)

text \<open>
  C8, as amended. The chain calls the Bank of Israel, then ExchangeRate.host, then
  ExchangeRate-API, and stops at the first whose rate Python takes as true (present and
  not zero), returning its rate and date. The label is the check mark and the provider
  name, followed by the rank \<open>(Official)\<close> for the Bank of Israel only. When no source
  gives such a rate, all three were called and the result is the absent rate and date
  with the label \<open>All APIs unavailable\<close>; nothing is raised.
\<close>

theorem source_chain:
  "(boi_usd w = Some (r, d) \<and> r \<noteq> 0 \<longrightarrow>
      get_current_rate w =
        ((JNum r, d, check_mark @ '' Bank of Israel (Official)''), [Bank_of_Israel]))
   \<and> (\<not> answers (boi_reply w) \<and> host_ils w = Some (j, d') \<and> truthy j \<longrightarrow>
      get_current_rate w =
        ((j, d', check_mark @ '' ExchangeRate.host''), [Bank_of_Israel, ExchangeRate_host]))
   \<and> (\<not> answers (boi_reply w) \<and> \<not> answers (host_ils w)
        \<and> er_api_ils w = Some (j, d') \<and> truthy j \<longrightarrow>
      get_current_rate w =
        ((j, d', check_mark @ '' ExchangeRate-API''),
         [Bank_of_Israel, ExchangeRate_host, ExchangeRate_API]))
   \<and> (\<not> answers (boi_reply w) \<and> \<not> answers (host_ils w) \<and> \<not> answers (er_api_ils w) \<longrightarrow>
      get_current_rate w =
        ((JNull, JNull, cross_mark @ '' All APIs unavailable''),
         [Bank_of_Israel, ExchangeRate_host, ExchangeRate_API]))
   \<and> rank_labelled ''Bank of Israel'' (check_mark @ '' Bank of Israel (Official)'')
   \<and> \<not> rank_labelled ''ExchangeRate.host'' (check_mark @ '' ExchangeRate.host'')
   \<and> \<not> rank_labelled ''ExchangeRate-API'' (check_mark @ '' ExchangeRate-API'')"
proof (intro conjI impI)
  assume "boi_usd w = Some (r, d) \<and> r \<noteq> 0"
  then show "get_current_rate w =
        ((JNum r, d, check_mark @ '' Bank of Israel (Official)''), [Bank_of_Israel])"
    by (simp add: get_current_rate_def if_rate_boi)
next
  assume h: "\<not> answers (boi_reply w) \<and> host_ils w = Some (j, d') \<and> truthy j"
  then have "if_rate (fetch_from_bank_of_israel w) = None"
    by (auto simp: if_rate_boi answers_boi split: option.splits)
  with h show "get_current_rate w =
        ((j, d', check_mark @ '' ExchangeRate.host''), [Bank_of_Israel, ExchangeRate_host])"
    by (simp add: get_current_rate_def if_rate_host)
next
  assume h: "\<not> answers (boi_reply w) \<and> \<not> answers (host_ils w)
        \<and> er_api_ils w = Some (j, d') \<and> truthy j"
  then have "if_rate (fetch_from_bank_of_israel w) = None"
    by (auto simp: if_rate_boi answers_boi split: option.splits)
  moreover from h have "if_rate (fetch_from_exchangerate_host w) = None"
    by (auto simp: if_rate_host answers_Some split: option.splits)
  ultimately show "get_current_rate w =
        ((j, d', check_mark @ '' ExchangeRate-API''),
         [Bank_of_Israel, ExchangeRate_host, ExchangeRate_API])"
    using h by (simp add: get_current_rate_def if_rate_api)
next
  assume h: "\<not> answers (boi_reply w) \<and> \<not> answers (host_ils w) \<and> \<not> answers (er_api_ils w)"
  then have "if_rate (fetch_from_bank_of_israel w) = None"
    by (auto simp: if_rate_boi answers_boi split: option.splits)
  moreover from h have "if_rate (fetch_from_exchangerate_host w) = None"
    by (auto simp: if_rate_host answers_Some split: option.splits)
  moreover from h have "if_rate (fetch_from_exchangerate_api w) = None"
    by (auto simp: if_rate_api answers_Some split: option.splits)
  ultimately show "get_current_rate w =
        ((JNull, JNull, cross_mark @ '' All APIs unavailable''),
         [Bank_of_Israel, ExchangeRate_host, ExchangeRate_API])"
    by (simp add: get_current_rate_def)
qed (simp_all add: rank_labelled_def check_mark_def)

theorem source_chain_witness:
  "get_current_rate boi_first =
     ((JNum 3.12, JStr ''2024-01-02'', check_mark @ '' Bank of Israel (Official)''),
      [Bank_of_Israel])
   \<and> get_current_rate host_only =
     ((JNum 3.1, JStr ''2024-01-01'', check_mark @ '' ExchangeRate.host''),
      [Bank_of_Israel, ExchangeRate_host])
   \<and> get_current_rate api_only =
     ((JNum 3.2, JStr ''2024-01-03'', check_mark @ '' ExchangeRate-API''),
      [Bank_of_Israel, ExchangeRate_host, ExchangeRate_API])
   \<and> get_current_rate (offline No_File 0) =
     ((JNull, JNull, cross_mark @ '' All APIs unavailable''),
      [Bank_of_Israel, ExchangeRate_host, ExchangeRate_API])"
proof -
  have "get_current_rate boi_first =
     ((JNum 3.12, JStr ''2024-01-02'', check_mark @ '' Bank of Israel (Official)''),
      [Bank_of_Israel])"
    using source_chain [of boi_first "3.12" "JStr ''2024-01-02''"]
    by (simp add: boi_first_def offline_def)
  moreover have "get_current_rate host_only =
     ((JNum 3.1, JStr ''2024-01-01'', check_mark @ '' ExchangeRate.host''),
      [Bank_of_Israel, ExchangeRate_host])"
    using source_chain [of host_only _ _ "JNum 3.1" "JStr ''2024-01-01''"]
    by (simp add: host_only_def offline_def answers_def boi_reply_def)
  moreover have "get_current_rate api_only =
     ((JNum 3.2, JStr ''2024-01-03'', check_mark @ '' ExchangeRate-API''),
      [Bank_of_Israel, ExchangeRate_host, ExchangeRate_API])"
    using source_chain [of api_only _ _ "JNum 3.2" "JStr ''2024-01-03''"]
    by (simp add: api_only_def offline_def answers_def boi_reply_def)
  moreover have "get_current_rate (offline No_File 0) =
     ((JNull, JNull, cross_mark @ '' All APIs unavailable''),
      [Bank_of_Israel, ExchangeRate_host, ExchangeRate_API])"
    using source_chain [of "offline No_File 0"]
    by (simp add: offline_def answers_def boi_reply_def)
  ultimately show ?thesis by simp
qed

section \<open>The cache\<close>

lemma round_half_even_close: "\<bar>of_int (round_half_even y) - y\<bar> \<le> 1 / 2"
proof -
  have "of_int \<lfloor>y\<rfloor> \<le> y" "y < of_int \<lfloor>y\<rfloor> + 1" by linarith+
  then show ?thesis
    by (auto simp: round_half_even_def Let_def)
qed

lemma load_unless_usable:
  "load_cached_data w =
     (case cache w of
        No_File \<Rightarrow> generate_demo_data w
      | File content \<Rightarrow>
          (case try_cache w content of Inl e \<Rightarrow> generate_demo_data w | Inr result \<Rightarrow> result))"
  by (simp add: load_cached_data_def split: cache_file.splits sum.splits)

lemma read_cache_valid:
  assumes "map_of kvs ''data'' = Some data" "pd_DataFrame w data = Inr df"
    "map_of kvs ''timestamp'' = Some (JStr s)" "fromisoformat w s = Some (Naive t)"
    "map_of kvs ''current_rate'' = Some r"
  shows "read_cache w (JObj kvs) =
     Inr (df, r, warning_sign @ '' Using cached data (''
            @ format_1f (to_double (total_seconds (int (now w) - t) / 3600)) @ '' hours old)'')"
  using assms by (simp add: read_cache_def parse_timestamp_def age_hours_def)

lemma read_cache_missing_key:
  assumes "map_of kvs ''data'' = None \<or> map_of kvs ''timestamp'' = None
      \<or> map_of kvs ''current_rate'' = None"
  shows "\<exists>e. read_cache w (JObj kvs) = Inl e"
  using assms by (auto simp: read_cache_def split: sum.splits option.splits)

lemma read_cache_bad_timestamp:
  assumes "map_of kvs ''timestamp'' = Some (JStr s)" "fromisoformat w s = None"
  shows "\<exists>e. read_cache w (JObj kvs) = Inl e"
  using assms by (auto simp: read_cache_def parse_timestamp_def split: sum.splits option.splits)

lemma read_cache_aware:
  assumes "map_of kvs ''timestamp'' = Some (JStr s)" "fromisoformat w s = Some (Aware t)"
  shows "\<exists>e. read_cache w (JObj kvs) = Inl e"
  using assms
  by (auto simp: read_cache_def parse_timestamp_def age_hours_def split: sum.splits option.splits)

lemma getitem_Inr: "getitem j k = Inr v \<Longrightarrow> \<exists>kvs. j = JObj kvs \<and> map_of kvs k = Some v"
  by (cases j) (auto split: option.splits)

lemma parse_timestamp_Inr:
  "parse_timestamp w ts = Inr t \<Longrightarrow> \<exists>s. ts = JStr s \<and> fromisoformat w s = Some t"
  by (cases ts) (auto simp: parse_timestamp_def split: option.splits)

lemma age_hours_Inr:
  "age_hours clock ct = Inr age \<Longrightarrow>
     \<exists>t. ct = Naive t \<and> age = to_double (total_seconds (int clock - t) / 3600)"
  by (cases ct) (auto simp: age_hours_def)

lemma read_cache_Inr:
  assumes "read_cache w j = Inr result"
  shows "\<exists>kvs data df s t r.
      j = JObj kvs \<and> map_of kvs ''data'' = Some data \<and> pd_DataFrame w data = Inr df
    \<and> map_of kvs ''timestamp'' = Some (JStr s) \<and> fromisoformat w s = Some (Naive t)
    \<and> map_of kvs ''current_rate'' = Some r
    \<and> result = (df, r, warning_sign @ '' Using cached data (''
            @ format_1f (to_double (total_seconds (int (now w) - t) / 3600)) @ '' hours old)'')"
proof -
  from assms obtain data df ts ct age r where
    a: "getitem j ''data'' = Inr data" and b: "pd_DataFrame w data = Inr df"
    and c: "getitem j ''timestamp'' = Inr ts" and d: "parse_timestamp w ts = Inr ct"
    and e: "age_hours (now w) ct = Inr age" and f: "getitem j ''current_rate'' = Inr r"
    and res: "result = (df, r, warning_sign @ '' Using cached data ('' @ format_1f age @ '' hours old)'')"
    by (auto simp: read_cache_def split: sum.splits)
  from a obtain kvs where j: "j = JObj kvs" and kd: "map_of kvs ''data'' = Some data"
    using getitem_Inr by blast
  from c j have kt: "map_of kvs ''timestamp'' = Some ts" by (auto split: option.splits)
  from f j have kr: "map_of kvs ''current_rate'' = Some r" by (auto split: option.splits)
  from d obtain s where ts: "ts = JStr s" and fs: "fromisoformat w s = Some ct"
    using parse_timestamp_Inr by blast
  from e obtain t where ct: "ct = Naive t" and age: "age = to_double (total_seconds (int (now w) - t) / 3600)"
    using age_hours_Inr by blast
  have "result = (df, r, warning_sign @ '' Using cached data (''
            @ format_1f (to_double (total_seconds (int (now w) - t) / 3600)) @ '' hours old)'')"
    unfolding res age ..
  moreover have "map_of kvs ''timestamp'' = Some (JStr s)" "fromisoformat w s = Some (Naive t)"
    using kt ts fs ct by simp_all
  ultimately show ?thesis
    using j kd b kr by blast
qed

lemma cache_usable_record:
  assumes "\<not> cache_unusable w (cache w)"
  shows "\<exists>kvs data df s t r.
      cache w = File (Inr (JObj kvs)) \<and> map_of kvs ''data'' = Some data
    \<and> pd_DataFrame w data = Inr df
    \<and> map_of kvs ''timestamp'' = Some (JStr s) \<and> fromisoformat w s = Some (Naive t)
    \<and> map_of kvs ''current_rate'' = Some r
    \<and> load_cached_data w = (df, r, warning_sign @ '' Using cached data (''
            @ format_1f (to_double (total_seconds (int (now w) - t) / 3600)) @ '' hours old)'')"
proof -
  from assms obtain j result where fl: "cache w = File (Inr j)"
    and rc: "read_cache w j = Inr result"
    by (auto simp: cache_unusable_def try_cache_def split: cache_file.splits sum.splits)
  from fl rc have "load_cached_data w = result"
    by (simp add: load_unless_usable try_cache_def)
  with read_cache_Inr [OF rc] fl show ?thesis by blast
qed

subsection \<open>Reading a printed number back\<close>

lemma digit_cases: "k < 10 \<Longrightarrow> k \<in> {0, 1, 2, 3, 4, 5, 6, 7, 8, 9::nat}"
  by auto

lemma digit_of_nth: "k < 10 \<Longrightarrow> digit_of (''0123456789'' ! k) = k"
  by (drule digit_cases) (auto simp: digit_of_def)

lemma digit_char_plain:
  "k < 10 \<Longrightarrow> ''0123456789'' ! k \<noteq> CHR ''.'' \<and> ''0123456789'' ! k \<noteq> CHR ''-''"
  by (drule digit_cases) auto

lemma digits_small: "n < 10 \<Longrightarrow> digits n = [''0123456789'' ! n]"
  by (subst digits.simps) simp

lemma digits_large:
  "\<not> n < 10 \<Longrightarrow> digits n = digits (n div 10) @ [''0123456789'' ! (n mod 10)]"
  by (subst digits.simps) simp

lemma read_nat_snoc: "read_nat (s @ [c]) = 10 * read_nat s + digit_of c"
  by (simp add: read_nat_def)

lemma read_nat_digits: "read_nat (digits n) = n"
proof (induction n rule: digits.induct)
  case (1 n)
  show ?case
  proof (cases "n < 10")
    case True
    then show ?thesis
      unfolding digits_small [OF True]
      by (simp add: read_nat_def digit_of_nth del: digits.simps)
  next
    case False
    with 1 have "read_nat (digits (n div 10)) = n div 10" by blast
    with False show ?thesis
      unfolding digits_large [OF False] read_nat_snoc
      by (simp add: digit_of_nth del: digits.simps)
  qed
qed

lemma digits_plain: "\<forall>c\<in>set (digits n). c \<noteq> CHR ''.'' \<and> c \<noteq> CHR ''-''"
proof (induction n rule: digits.induct)
  case (1 n)
  show ?case
  proof (cases "n < 10")
    case True
    then have "''0123456789'' ! n \<noteq> CHR ''.'' \<and> ''0123456789'' ! n \<noteq> CHR ''-''"
      by (rule digit_char_plain)
    then show ?thesis
      unfolding digits_small [OF True] by (simp only: list.set ball_simps simp_thms)
  next
    case False
    then have ih: "\<forall>c\<in>set (digits (n div 10)). c \<noteq> CHR ''.'' \<and> c \<noteq> CHR ''-''"
      by (rule 1)
    have "n mod 10 < 10" by simp
    then have "''0123456789'' ! (n mod 10) \<noteq> CHR ''.'' \<and> ''0123456789'' ! (n mod 10) \<noteq> CHR ''-''"
      by (rule digit_char_plain)
    with ih show ?thesis
      unfolding digits_large [OF False] by (simp only: set_append list.set ball_Un ball_simps simp_thms)
  qed
qed

lemma digits_nonempty: "digits n \<noteq> []"
proof (cases "n < 10")
  case True
  show ?thesis unfolding digits_small [OF True] by (simp del: digits.simps)
next
  case False
  show ?thesis unfolding digits_large [OF False] by (simp del: digits.simps)
qed

lemma read_unsigned:
  "real (read_nat (takeWhile (\<lambda>c. c \<noteq> CHR ''.'') (digits a @ ''.'' @ digits (b mod 10))))
   + real (read_nat (drop 1 (dropWhile (\<lambda>c. c \<noteq> CHR ''.'') (digits a @ ''.'' @ digits (b mod 10)))))
       / 10 ^ length (drop 1 (dropWhile (\<lambda>c. c \<noteq> CHR ''.'') (digits a @ ''.'' @ digits (b mod 10))))
   = real a + real (b mod 10) / 10"
proof -
  have plain: "\<forall>c\<in>set (digits a). c \<noteq> CHR ''.''"
    using digits_plain [of a] by blast
  have tw: "takeWhile (\<lambda>c. c \<noteq> CHR ''.'') (digits a @ ''.'' @ digits (b mod 10)) = digits a"
    using plain by (simp add: takeWhile_append2 del: digits.simps)
  have dw: "drop 1 (dropWhile (\<lambda>c. c \<noteq> CHR ''.'') (digits a @ ''.'' @ digits (b mod 10)))
      = digits (b mod 10)"
    using plain by (simp add: dropWhile_append2 del: digits.simps)
  have len: "length (digits (b mod 10)) = 1"
    by (simp only: digits_small [of "b mod 10"]) simp
  show ?thesis
    unfolding tw dw by (simp only: read_nat_digits len power_one_right)
qed

lemma round_half_even_sign:
  "(x < 0 \<longrightarrow> round_half_even (x * 10) \<le> 0) \<and> (0 \<le> x \<longrightarrow> 0 \<le> round_half_even (x * 10))"
proof -
  have "x < 0 \<Longrightarrow> \<lfloor>x * 10\<rfloor> \<le> -1" by (simp add: floor_le_iff)
  moreover have "0 \<le> x \<Longrightarrow> 0 \<le> \<lfloor>x * 10\<rfloor>" by simp
  ultimately show ?thesis
    by (auto simp: round_half_even_def Let_def)
qed

lemma read_decimal_negative:
  "read_decimal (CHR ''-'' # body) =
     - (real (read_nat (takeWhile (\<lambda>c. c \<noteq> CHR ''.'') body))
        + real (read_nat (drop 1 (dropWhile (\<lambda>c. c \<noteq> CHR ''.'') body)))
            / 10 ^ length (drop 1 (dropWhile (\<lambda>c. c \<noteq> CHR ''.'') body)))"
  by (simp add: read_decimal_def Let_def)

lemma read_decimal_unsigned:
  "take 1 body \<noteq> ''-'' \<Longrightarrow>
   read_decimal body =
     real (read_nat (takeWhile (\<lambda>c. c \<noteq> CHR ''.'') body))
     + real (read_nat (drop 1 (dropWhile (\<lambda>c. c \<noteq> CHR ''.'') body)))
         / 10 ^ length (drop 1 (dropWhile (\<lambda>c. c \<noteq> CHR ''.'') body))"
  by (simp add: read_decimal_def Let_def)

lemma read_decimal_format_1f:
  "read_decimal (format_1f x) = real_of_int (round_half_even (x * 10)) / 10"
proof -
  define m where "m = nat \<bar>round_half_even (x * 10)\<bar>"
  have split: "real (m div 10) + real (m mod 10) / 10 = real m / 10"
  proof -
    have "real m = real (10 * (m div 10) + m mod 10)" by simp
    also have "\<dots> = 10 * real (m div 10) + real (m mod 10)"
      by (simp only: of_nat_add of_nat_mult of_nat_numeral)
    finally show ?thesis by simp
  qed
  show ?thesis
  proof (cases "x < 0")
    case True
    then have fmt: "format_1f x = CHR ''-'' # (digits (m div 10) @ ''.'' @ digits (m mod 10))"
      by (simp add: format_1f_def m_def Let_def del: digits.simps)
    from True have "round_half_even (x * 10) \<le> 0" using round_half_even_sign by blast
    then have "real m = - real_of_int (round_half_even (x * 10))" by (simp add: m_def)
    then show ?thesis
      unfolding fmt read_decimal_negative read_unsigned split by simp
  next
    case False
    then have fmt: "format_1f x = digits (m div 10) @ ''.'' @ digits (m mod 10)"
      by (simp add: format_1f_def m_def Let_def del: digits.simps)
    obtain c cs where w: "digits (m div 10) = c # cs"
      using digits_nonempty by (cases "digits (m div 10)") auto
    then have "c \<in> set (digits (m div 10))" by simp
    then have "c \<noteq> CHR ''-''" using digits_plain [of "m div 10"] by blast
    then have unsigned: "take 1 (digits (m div 10) @ ''.'' @ digits (m mod 10)) \<noteq> ''-''"
      unfolding w by simp
    from False have "0 \<le> round_half_even (x * 10)" using round_half_even_sign by force
    then have "real m = real_of_int (round_half_even (x * 10))" by (simp add: m_def)
    then show ?thesis
      unfolding fmt read_decimal_unsigned [OF unsigned] read_unsigned split by simp
  qed
qed

lemma read_decimal_close: "\<bar>read_decimal (format_1f x) - x\<bar> \<le> 1 / 20"
  using round_half_even_close [of "x * 10"]
  by (simp add: read_decimal_format_1f field_simps abs_le_iff)

subsection \<open>The rounding of a float operation\<close>

lemma shift_down_none: "y < 2 ^ 53 \<Longrightarrow> shift_down n y = 0"
  by (cases n) simp_all

lemma shift_up_reach: "shift_up n y < n \<Longrightarrow> 2 ^ 52 \<le> y * 2 ^ shift_up n y"
proof (induction n arbitrary: y)
  case 0
  then show ?case by simp
next
  case (Suc n)
  show ?case
  proof (cases "y < 2 ^ 52")
    case True
    with Suc.prems have "shift_up n (2 * y) < n" by simp
    then have "2 ^ 52 \<le> 2 * y * 2 ^ shift_up n (2 * y)" by (rule Suc.IH)
    with True show ?thesis by (simp add: mult.assoc)
  next
    case False
    then show ?thesis by simp
  qed
qed

lemma shift_up_full: "shift_up n y = n \<Longrightarrow> 0 < n \<Longrightarrow> y * 2 ^ (n - 1) < 2 ^ 52"
proof (induction n arbitrary: y)
  case 0
  then show ?case by simp
next
  case (Suc n)
  from Suc.prems have small: "y < 2 ^ 52" and rest: "shift_up n (2 * y) = n"
    by (simp_all split: if_splits)
  show ?case
  proof (cases "n = 0")
    case True
    with small show ?thesis by simp
  next
    case False
    then have "0 < n" by simp
    with rest have "2 * y * 2 ^ (n - 1) < 2 ^ 52" by (rule Suc.IH)
    moreover from False have "(2::real) ^ n = 2 * 2 ^ (n - 1)"
      by (cases n) simp_all
    ultimately show ?thesis by (simp add: mult.assoc mult.left_commute)
  qed
qed

lemma shift_up_le: "shift_up n y \<le> n"
  by (induction n arbitrary: y) simp_all

lemma to_double_close:
  assumes lo: "1 / 2 ^ 1021 \<le> \<bar>x\<bar>" and hi: "\<bar>x\<bar> < 2 ^ 53"
  shows "\<bar>to_double x - x\<bar> \<le> \<bar>x\<bar> / 2 ^ 53"
proof -
  define up where "up = shift_up 1074 \<bar>x\<bar>"
  from lo have nz: "x \<noteq> 0" by auto
  have down: "shift_down 971 \<bar>x\<bar> = 0" using hi by (rule shift_down_none)
  have td: "to_double x = of_int (round_half_even (x * 2 ^ up)) / 2 ^ up"
    using nz by (simp add: to_double_def Let_def down up_def)
  have "up \<noteq> 1074"
  proof
    assume "up = 1074"
    then have "shift_up 1074 \<bar>x\<bar> = 1074" by (simp add: up_def)
    then have "\<bar>x\<bar> * 2 ^ (1074 - 1) < 2 ^ 52" by (rule shift_up_full) simp
    then have "\<bar>x\<bar> * 2 ^ 1073 < 2 ^ 52" by simp
    moreover have "(2::real) ^ 1073 = 2 ^ 1021 * 2 ^ 52" by (simp add: power_add [symmetric])
    ultimately have "\<bar>x\<bar> * 2 ^ 1021 * 2 ^ 52 < 1 * 2 ^ 52" by (simp add: mult.assoc)
    then have "\<bar>x\<bar> * 2 ^ 1021 < 1" by (simp only: mult_less_cancel_right) simp
    with lo show False by (simp add: field_simps)
  qed
  with shift_up_le [of 1074 "\<bar>x\<bar>"] have "shift_up 1074 \<bar>x\<bar> < 1074" by (simp add: up_def)
  then have reach: "2 ^ 52 \<le> \<bar>x\<bar> * 2 ^ up" unfolding up_def by (rule shift_up_reach)
  have pos: "(0::real) < 2 ^ up" by simp
  have "to_double x - x = (of_int (round_half_even (x * 2 ^ up)) - x * 2 ^ up) / 2 ^ up"
    unfolding td by (simp add: diff_divide_distrib)
  then have "\<bar>to_double x - x\<bar> = \<bar>of_int (round_half_even (x * 2 ^ up)) - x * 2 ^ up\<bar> / 2 ^ up"
    using pos by (simp add: abs_divide)
  also have "\<dots> \<le> (1 / 2) / 2 ^ up"
    by (rule divide_right_mono [OF round_half_even_close]) simp
  also have "\<dots> \<le> \<bar>x\<bar> / 2 ^ 53"
  proof -
    from reach have "1 * 2 ^ 52 \<le> \<bar>x\<bar> * 2 ^ up" by simp
    then have "1 / 2 ^ up \<le> \<bar>x\<bar> / 2 ^ 52" using pos by (simp add: field_simps)
    then show ?thesis by simp
  qed
  finally show ?thesis .
qed

lemma age_close:
  assumes "\<bar>d\<bar> < 10 ^ 18"
  shows "\<bar>to_double (total_seconds d / 3600) - spec_age_hours d\<bar> \<le> \<bar>spec_age_hours d\<bar> / 2 ^ 51"
proof (cases "d = 0")
  case True
  then show ?thesis
    by (simp add: total_seconds_def to_double_def spec_age_hours_def)
next
  case False
  define e where "e = real_of_int d / 10 ^ 6"
  define s where "s = to_double e"
  define q where "q = s / 3600"
  have p53: "(2::real) ^ 53 = 9007199254740992" and p51: "(2::real) ^ 51 = 2251799813685248"
    by simp_all
  have small: "(1::real) / 2 ^ 1021 \<le> 1 / 2 ^ 40"
    by (rule divide_left_mono) simp_all
  from False have "1 \<le> \<bar>d\<bar>" by simp
  then have "1 \<le> \<bar>real_of_int d\<bar>" by linarith
  then have e_lo: "1 / 10 ^ 6 \<le> \<bar>e\<bar>" by (simp add: e_def field_simps)
  from assms have "real_of_int \<bar>d\<bar> < real_of_int (10 ^ 18)" by (simp only: of_int_less_iff)
  then have "\<bar>real_of_int d\<bar> < 10 ^ 18" by simp
  then have e_hi: "\<bar>e\<bar> < 10 ^ 12" by (simp add: e_def field_simps)
  have "1 / 2 ^ 1021 \<le> \<bar>e\<bar>" using small e_lo by simp
  moreover have "\<bar>e\<bar> < 2 ^ 53" using e_hi by simp
  ultimately have "\<bar>to_double e - e\<bar> \<le> \<bar>e\<bar> / 2 ^ 53" by (rule to_double_close)
  then have se: "\<bar>s - e\<bar> \<le> \<bar>e\<bar> / 9007199254740992" by (simp add: s_def)
  then have s_hi: "\<bar>s\<bar> \<le> \<bar>e\<bar> + \<bar>e\<bar> / 9007199254740992"
    and s_lo: "\<bar>e\<bar> - \<bar>e\<bar> / 9007199254740992 \<le> \<bar>s\<bar>" by linarith+
  have q_abs: "\<bar>q\<bar> = \<bar>s\<bar> / 3600" by (simp add: q_def)
  have "1 / 2 ^ 40 \<le> \<bar>q\<bar>" using s_lo e_lo unfolding q_abs by simp
  with small have "1 / 2 ^ 1021 \<le> \<bar>q\<bar>" by linarith
  moreover have "\<bar>q\<bar> < 2 ^ 53" using s_hi e_hi unfolding q_abs by simp
  ultimately have "\<bar>to_double q - q\<bar> \<le> \<bar>q\<bar> / 2 ^ 53" by (rule to_double_close)
  then have hq: "\<bar>to_double q - q\<bar> \<le> \<bar>s\<bar> / 3600 / 9007199254740992"
    by (simp add: q_abs)
  have spec: "spec_age_hours d = e / 3600" by (simp add: spec_age_hours_def e_def)
  have "q - e / 3600 = (s - e) / 3600" by (simp add: q_def diff_divide_distrib)
  then have "\<bar>q - e / 3600\<bar> = \<bar>(s - e) / 3600\<bar>" by (rule arg_cong)
  then have "\<bar>q - e / 3600\<bar> = \<bar>s - e\<bar> / 3600" by (simp add: abs_divide)
  with se have qe: "\<bar>q - e / 3600\<bar> \<le> \<bar>e\<bar> / 9007199254740992 / 3600" by simp
  have "\<bar>to_double q - e / 3600\<bar> \<le> \<bar>to_double q - q\<bar> + \<bar>q - e / 3600\<bar>" by linarith
  also have "\<dots> \<le> \<bar>s\<bar> / 3600 / 9007199254740992 + \<bar>e\<bar> / 9007199254740992 / 3600"
    using hq qe by linarith
  also have "\<dots> \<le> \<bar>e\<bar> / 3600 / 2251799813685248"
    using s_hi by simp
  finally have "\<bar>to_double q - e / 3600\<bar> \<le> \<bar>e / 3600\<bar> / 2 ^ 51" by (simp add: p51)
  then show ?thesis
    by (simp only: spec total_seconds_def q_def s_def e_def)
qed

subsection \<open>The age as a float, and its print\<close>

lemma to_double_5400: "to_double 5400 = 5400"
  by code_simp

lemma to_double_3_2: "to_double (3 / 2) = 3 / 2"
  by code_simp

lemma to_double_1260: "to_double 1260 = 1260"
  by code_simp

lemma to_double_7_20: "to_double (7 / 20) = 6305039478318694 / 2 ^ 54"
  by code_simp

lemma to_double_36180: "to_double 36180 = 36180"
  by code_simp

lemma to_double_201_20: "to_double (201 / 20) = 2828823515942093 / 2 ^ 48"
  by code_simp

lemma age_ninety_minutes: "to_double (total_seconds 5400000000 / 3600) = 3 / 2"
  by (simp add: total_seconds_def to_double_5400 to_double_3_2)

lemma age_twenty_one_minutes:
  "to_double (total_seconds 1260000000 / 3600) = 6305039478318694 / 2 ^ 54"
  by (simp add: total_seconds_def to_double_1260 to_double_7_20)

lemma age_ten_hours_three_minutes:
  "to_double (total_seconds 36180000000 / 3600) = 2828823515942093 / 2 ^ 48"
  by (simp add: total_seconds_def to_double_36180 to_double_201_20)

lemma format_ninety_minutes: "format_1f (3 / 2) = ''1.5''"
  by (simp add: format_1f_def round_half_even_def)

lemma format_twenty_one_minutes: "format_1f (6305039478318694 / 2 ^ 54) = ''0.3''"
  by (simp add: format_1f_def round_half_even_def)

lemma format_ten_hours_three_minutes: "format_1f (2828823515942093 / 2 ^ 48) = ''10.1''"
  by (simp add: format_1f_def round_half_even_def)

lemma label_ninety_minutes:
  "format_1f (to_double (total_seconds 5400000000 / 3600)) = ''1.5''"
  unfolding age_ninety_minutes by (rule format_ninety_minutes)

lemma label_twenty_one_minutes:
  "format_1f (to_double (total_seconds 1260000000 / 3600)) = ''0.3''"
  unfolding age_twenty_one_minutes by (rule format_twenty_one_minutes)

lemma label_ten_hours_three_minutes:
  "format_1f (to_double (total_seconds 36180000000 / 3600)) = ''10.1''"
  unfolding age_ten_hours_three_minutes by (rule format_ten_hours_three_minutes)

subsection \<open>What the load returns\<close>

text \<open>
  C6 as the specification words it does not hold. On the record of its own scenario,
  whose timestamp is \<^verbatim>\<open>not-a-date\<close>, \<^verbatim>\<open>load_cached_data\<close> does not return an absent
  result for its caller to act on: it returns the series of the demo generator, 30
  rows, with the last demo rate and the demo label. And a record that is valid but
  for a UTC offset in its timestamp does not get a label with its age: Python refuses
  to subtract the aware datetime from \<^verbatim>\<open>datetime.now()\<close>, and the result is the demo
  data again.
\<close>

theorem cache_load_returns_demo:
  "length (rows (fst (load_cached_data (offline (File (Inr not_a_date)) ninety_minutes_later)))) = 30
   \<and> fst (snd (load_cached_data (offline (File (Inr not_a_date)) ninety_minutes_later)))
      = JNum 3.107
   \<and> snd (snd (load_cached_data (offline (File (Inr not_a_date)) ninety_minutes_later)))
      = bar_chart @ '' Demo mode (realistic rates)''
   \<and> length (rows (fst (load_cached_data
         ((offline (File (Inr offset_record)) ninety_minutes_later)\<lparr>fromisoformat := iso_offset\<rparr>)))) = 30
   \<and> snd (snd (load_cached_data
         ((offline (File (Inr offset_record)) ninety_minutes_later)\<lparr>fromisoformat := iso_offset\<rparr>)))
      = bar_chart @ '' Demo mode (realistic rates)''"
proof -
  let ?w = "offline (File (Inr not_a_date)) ninety_minutes_later"
  let ?v = "(offline (File (Inr offset_record)) ninety_minutes_later)\<lparr>fromisoformat := iso_offset\<rparr>"
  have "\<exists>e. read_cache ?w not_a_date = Inl e"
    unfolding not_a_date_def
    by (rule read_cache_bad_timestamp [where s = "''not-a-date''"])
      (simp_all add: offline_def iso_new_year_def)
  then have w: "load_cached_data ?w = generate_demo_data ?w"
    by (auto simp: load_unless_usable try_cache_def offline_def)
  have "\<exists>e. read_cache ?v offset_record = Inl e"
    unfolding offset_record_def
    by (rule read_cache_aware [where s = "''2024-01-01T00:00:00+02:00''"
          and t = "int new_year_2024 - 7200000000"])
      (simp_all add: offline_def iso_offset_def)
  then have v: "load_cached_data ?v = generate_demo_data ?v"
    by (auto simp: load_unless_usable try_cache_def offline_def)
  show ?thesis
    unfolding w v by (simp add: demo_rows) (simp add: generate_demo_data_eq demo_rate_last)
qed

text \<open>
  C6, as amended. \<^verbatim>\<open>load_cached_data\<close> raises nothing and never returns an absent
  result. When the cache file is absent, when opening or parsing it raises, when the
  record lacks one of the keys \<^verbatim>\<open>data\<close>, \<^verbatim>\<open>timestamp\<close>, \<^verbatim>\<open>current_rate\<close>, when its
  timestamp is a string that \<^verbatim>\<open>fromisoformat\<close> rejects, and when the timestamp parses
  to a datetime with a UTC offset, it returns what the demo generator returns: 30 rows
  under the demo label. On a record with its keys, a \<^verbatim>\<open>data\<close> value that pandas
  accepts and a timestamp without offset, it returns the cached frame and rate with a
  label that prints the age with one decimal. The age is the float that Python
  computes, the microseconds from the timestamp to the clock divided by \<open>10 ^ 6\<close> and
  then by 3600; for any two datetimes (less than \<open>10 ^ 18\<close> microseconds apart) it is
  within a relative error of \<open>2 ^ -51\<close> of the exact age in hours, (now - capturedAt) in
  hours. The number printed is that float rounded to tenths, a tie going to the even
  digit, so it is within 0.05 of it. There is no third outcome: whenever the \<^verbatim>\<open>try\<close>
  block raises the result is the demo data, and otherwise the file holds such a
  record.
\<close>

theorem cache_fails_soft:
  "(cache w = No_File \<longrightarrow> load_cached_data w = generate_demo_data w)
   \<and> (cache w = File (Inl e) \<longrightarrow> load_cached_data w = generate_demo_data w)
   \<and> (cache w = File (Inr (JObj kvs))
        \<and> (map_of kvs ''data'' = None \<or> map_of kvs ''timestamp'' = None
             \<or> map_of kvs ''current_rate'' = None)
      \<longrightarrow> load_cached_data w = generate_demo_data w)
   \<and> (cache w = File (Inr (JObj kvs)) \<and> map_of kvs ''timestamp'' = Some (JStr s)
        \<and> fromisoformat w s = None
      \<longrightarrow> load_cached_data w = generate_demo_data w)
   \<and> (cache w = File (Inr (JObj kvs)) \<and> map_of kvs ''timestamp'' = Some (JStr s)
        \<and> fromisoformat w s = Some (Aware t)
      \<longrightarrow> load_cached_data w = generate_demo_data w)
   \<and> length (rows (fst (generate_demo_data w))) = 30
   \<and> snd (snd (generate_demo_data w)) = bar_chart @ '' Demo mode (realistic rates)''
   \<and> (cache w = File (Inr (JObj kvs)) \<and> map_of kvs ''data'' = Some data
        \<and> pd_DataFrame w data = Inr df \<and> map_of kvs ''timestamp'' = Some (JStr s)
        \<and> fromisoformat w s = Some (Naive t) \<and> map_of kvs ''current_rate'' = Some r
      \<longrightarrow> load_cached_data w =
            (df, r, warning_sign @ '' Using cached data (''
               @ format_1f (to_double (total_seconds (int (now w) - t) / 3600))
               @ '' hours old)''))
   \<and> (\<bar>d\<bar> < 10 ^ 18 \<longrightarrow>
        \<bar>to_double (total_seconds d / 3600) - spec_age_hours d\<bar>
          \<le> \<bar>spec_age_hours d\<bar> / 2 ^ 51)
   \<and> read_decimal (format_1f age) = real_of_int (round_half_even (age * 10)) / 10
   \<and> \<bar>read_decimal (format_1f age) - age\<bar> \<le> 1 / 20
   \<and> (cache_unusable w (cache w) \<longrightarrow> load_cached_data w = generate_demo_data w)
   \<and> (\<not> cache_unusable w (cache w) \<longrightarrow>
        (\<exists>kvs' data' df' s' t' r'.
            cache w = File (Inr (JObj kvs')) \<and> map_of kvs' ''data'' = Some data'
          \<and> pd_DataFrame w data' = Inr df'
          \<and> map_of kvs' ''timestamp'' = Some (JStr s')
          \<and> fromisoformat w s' = Some (Naive t')
          \<and> map_of kvs' ''current_rate'' = Some r'
          \<and> load_cached_data w =
                (df', r', warning_sign @ '' Using cached data (''
                   @ format_1f (to_double (total_seconds (int (now w) - t') / 3600))
                   @ '' hours old)'')))"
proof (intro conjI impI)
  assume "cache w = No_File"
  then show "load_cached_data w = generate_demo_data w"
    by (simp add: load_unless_usable)
next
  assume "cache w = File (Inl e)"
  then show "load_cached_data w = generate_demo_data w"
    by (simp add: load_unless_usable try_cache_def)
next
  assume h: "cache w = File (Inr (JObj kvs))
        \<and> (map_of kvs ''data'' = None \<or> map_of kvs ''timestamp'' = None
             \<or> map_of kvs ''current_rate'' = None)"
  then obtain e' where "read_cache w (JObj kvs) = Inl e'"
    using read_cache_missing_key by blast
  with h show "load_cached_data w = generate_demo_data w"
    by (simp add: load_unless_usable try_cache_def)
next
  assume h: "cache w = File (Inr (JObj kvs)) \<and> map_of kvs ''timestamp'' = Some (JStr s)
        \<and> fromisoformat w s = None"
  then obtain e' where "read_cache w (JObj kvs) = Inl e'"
    using read_cache_bad_timestamp by blast
  with h show "load_cached_data w = generate_demo_data w"
    by (simp add: load_unless_usable try_cache_def)
next
  assume h: "cache w = File (Inr (JObj kvs)) \<and> map_of kvs ''timestamp'' = Some (JStr s)
        \<and> fromisoformat w s = Some (Aware t)"
  then obtain e' where "read_cache w (JObj kvs) = Inl e'"
    using read_cache_aware by blast
  with h show "load_cached_data w = generate_demo_data w"
    by (simp add: load_unless_usable try_cache_def)
next
  show "length (rows (fst (generate_demo_data w))) = 30"
    by (rule demo_rows)
next
  show "snd (snd (generate_demo_data w)) = bar_chart @ '' Demo mode (realistic rates)''"
    by (simp add: generate_demo_data_eq)
next
  assume h: "cache w = File (Inr (JObj kvs)) \<and> map_of kvs ''data'' = Some data
        \<and> pd_DataFrame w data = Inr df \<and> map_of kvs ''timestamp'' = Some (JStr s)
        \<and> fromisoformat w s = Some (Naive t) \<and> map_of kvs ''current_rate'' = Some r"
  then have "read_cache w (JObj kvs) =
     Inr (df, r, warning_sign @ '' Using cached data (''
            @ format_1f (to_double (total_seconds (int (now w) - t) / 3600)) @ '' hours old)'')"
    using read_cache_valid by blast
  with h show "load_cached_data w =
            (df, r, warning_sign @ '' Using cached data (''
               @ format_1f (to_double (total_seconds (int (now w) - t) / 3600))
               @ '' hours old)'')"
    by (simp add: load_unless_usable try_cache_def)
next
  assume "\<bar>d\<bar> < 10 ^ 18"
  then show "\<bar>to_double (total_seconds d / 3600) - spec_age_hours d\<bar>
      \<le> \<bar>spec_age_hours d\<bar> / 2 ^ 51"
    by (rule age_close)
next
  show "read_decimal (format_1f age) = real_of_int (round_half_even (age * 10)) / 10"
    by (rule read_decimal_format_1f)
next
  show "\<bar>read_decimal (format_1f age) - age\<bar> \<le> 1 / 20"
    by (rule read_decimal_close)
next
  assume "cache_unusable w (cache w)"
  then show "load_cached_data w = generate_demo_data w"
    by (auto simp: load_unless_usable cache_unusable_def split: cache_file.splits sum.splits)
next
  assume "\<not> cache_unusable w (cache w)"
  then show "\<exists>kvs' data' df' s' t' r'.
            cache w = File (Inr (JObj kvs')) \<and> map_of kvs' ''data'' = Some data'
          \<and> pd_DataFrame w data' = Inr df'
          \<and> map_of kvs' ''timestamp'' = Some (JStr s')
          \<and> fromisoformat w s' = Some (Naive t')
          \<and> map_of kvs' ''current_rate'' = Some r'
          \<and> load_cached_data w =
                (df', r', warning_sign @ '' Using cached data (''
                   @ format_1f (to_double (total_seconds (int (now w) - t') / 3600))
                   @ '' hours old)'')"
    by (rule cache_usable_record)
qed

theorem cache_fails_soft_witness:
  "load_cached_data (offline No_File ninety_minutes_later)
     = generate_demo_data (offline No_File ninety_minutes_later)
   \<and> load_cached_data (offline (File (Inl JSONDecodeError)) ninety_minutes_later)
     = generate_demo_data (offline (File (Inl JSONDecodeError)) ninety_minutes_later)
   \<and> load_cached_data (offline (File (Inr no_timestamp)) ninety_minutes_later)
     = generate_demo_data (offline (File (Inr no_timestamp)) ninety_minutes_later)
   \<and> load_cached_data (offline (File (Inr not_a_date)) ninety_minutes_later)
     = generate_demo_data (offline (File (Inr not_a_date)) ninety_minutes_later)
   \<and> load_cached_data
        ((offline (File (Inr offset_record)) ninety_minutes_later)\<lparr>fromisoformat := iso_offset\<rparr>)
     = generate_demo_data
        ((offline (File (Inr offset_record)) ninety_minutes_later)\<lparr>fromisoformat := iso_offset\<rparr>)
   \<and> length (rows (fst (generate_demo_data (offline No_File ninety_minutes_later)))) = 30
   \<and> load_cached_data (offline (File (Inr good_record)) twenty_one_minutes_later)
     = (DataFrame [(''2023-12-31'', 3.1)], JNum 3.11,
        warning_sign @ '' Using cached data (0.3 hours old)'')
   \<and> load_cached_data (offline (File (Inr good_record)) ninety_minutes_later)
     = (DataFrame [(''2023-12-31'', 3.1)], JNum 3.11,
        warning_sign @ '' Using cached data (1.5 hours old)'')
   \<and> load_cached_data (offline (File (Inr good_record)) ten_hours_three_minutes_later)
     = (DataFrame [(''2023-12-31'', 3.1)], JNum 3.11,
        warning_sign @ '' Using cached data (10.1 hours old)'')
   \<and> \<bar>to_double (total_seconds 1260000000 / 3600) - 7 / 20\<bar> \<le> 7 / 20 / 2 ^ 51
   \<and> read_decimal ''0.3'' = 3 / 10
   \<and> \<bar>read_decimal ''0.3'' - to_double (total_seconds 1260000000 / 3600)\<bar> \<le> 1 / 20"
proof -
  let ?w = "\<lambda>file. offline file ninety_minutes_later"
  let ?good = "[(''timestamp'', JStr ''2024-01-01T00:00:00''),
          (''data'', JArr [JObj [(''Date'', JStr ''2023-12-31''), (''Rate'', JNum 3.1)]]),
          (''current_rate'', JNum 3.11), (''current_date'', JStr ''2023-12-31'')]"
  let ?data = "JArr [JObj [(''Date'', JStr ''2023-12-31''), (''Rate'', JNum 3.1)]]"
  have absent: "load_cached_data (?w No_File) = generate_demo_data (?w No_File)"
    using cache_fails_soft [of "?w No_File"] by (simp add: offline_def)
  have unreadable: "load_cached_data (?w (File (Inl JSONDecodeError)))
      = generate_demo_data (?w (File (Inl JSONDecodeError)))"
    using cache_fails_soft [of "?w (File (Inl JSONDecodeError))" JSONDecodeError]
    by (simp add: offline_def)
  have no_key: "load_cached_data (?w (File (Inr no_timestamp)))
      = generate_demo_data (?w (File (Inr no_timestamp)))"
    using cache_fails_soft [of "?w (File (Inr no_timestamp))" _
        "[(''data'', JArr []), (''current_rate'', JNum 3.1)]"]
    by (simp add: offline_def no_timestamp_def)
  have bad_date: "load_cached_data (?w (File (Inr not_a_date)))
      = generate_demo_data (?w (File (Inr not_a_date)))"
    using cache_fails_soft [of "?w (File (Inr not_a_date))" _
        "[(''timestamp'', JStr ''not-a-date''), (''data'', JArr []),
          (''current_rate'', JNum 3.1), (''current_date'', JStr ''2024-01-01'')]" "''not-a-date''"]
    by (simp add: offline_def not_a_date_def iso_new_year_def)
  have aware: "load_cached_data ((?w (File (Inr offset_record)))\<lparr>fromisoformat := iso_offset\<rparr>)
      = generate_demo_data ((?w (File (Inr offset_record)))\<lparr>fromisoformat := iso_offset\<rparr>)"
    using cache_fails_soft [of "(?w (File (Inr offset_record)))\<lparr>fromisoformat := iso_offset\<rparr>" _
        "[(''timestamp'', JStr ''2024-01-01T00:00:00+02:00''),
          (''data'', JArr [JObj [(''Date'', JStr ''2023-12-31''), (''Rate'', JNum 3.1)]]),
          (''current_rate'', JNum 3.11), (''current_date'', JStr ''2023-12-31'')]"
        "''2024-01-01T00:00:00+02:00''" "int new_year_2024 - 7200000000"]
    by (simp add: offline_def offset_record_def iso_offset_def)
  have thirty: "length (rows (fst (generate_demo_data (?w No_File)))) = 30"
    using cache_fails_soft [of "?w No_File"] by blast
  have at_21: "load_cached_data (offline (File (Inr good_record)) twenty_one_minutes_later)
      = (DataFrame [(''2023-12-31'', 3.1)], JNum 3.11,
         warning_sign @ '' Using cached data (0.3 hours old)'')"
    using cache_fails_soft [of "offline (File (Inr good_record)) twenty_one_minutes_later" _
        ?good "''2024-01-01T00:00:00''" "int new_year_2024" ?data
        "DataFrame [(''2023-12-31'', 3.1)]" "JNum 3.11"]
    by (simp add: offline_def good_record_def iso_new_year_def records_frame_def
        twenty_one_minutes_later_def new_year_2024_def label_twenty_one_minutes)
  have at_90: "load_cached_data (?w (File (Inr good_record)))
      = (DataFrame [(''2023-12-31'', 3.1)], JNum 3.11,
         warning_sign @ '' Using cached data (1.5 hours old)'')"
    using cache_fails_soft [of "?w (File (Inr good_record))" _
        ?good "''2024-01-01T00:00:00''" "int new_year_2024" ?data
        "DataFrame [(''2023-12-31'', 3.1)]" "JNum 3.11"]
    by (simp add: offline_def good_record_def iso_new_year_def records_frame_def
        ninety_minutes_later_def new_year_2024_def label_ninety_minutes)
  have at_603: "load_cached_data (offline (File (Inr good_record)) ten_hours_three_minutes_later)
      = (DataFrame [(''2023-12-31'', 3.1)], JNum 3.11,
         warning_sign @ '' Using cached data (10.1 hours old)'')"
    using cache_fails_soft [of "offline (File (Inr good_record)) ten_hours_three_minutes_later" _
        ?good "''2024-01-01T00:00:00''" "int new_year_2024" ?data
        "DataFrame [(''2023-12-31'', 3.1)]" "JNum 3.11"]
    by (simp add: offline_def good_record_def iso_new_year_def records_frame_def
        ten_hours_three_minutes_later_def new_year_2024_def label_ten_hours_three_minutes)
  note inst = cache_fails_soft [where d = 1260000000
      and age = "to_double (total_seconds 1260000000 / 3600)"]
  have "\<bar>1260000000::int\<bar> < 10 ^ 18" by simp
  with inst have "\<bar>to_double (total_seconds 1260000000 / 3600) - spec_age_hours 1260000000\<bar>
      \<le> \<bar>spec_age_hours 1260000000\<bar> / 2 ^ 51"
    by blast
  moreover have "spec_age_hours 1260000000 = 7 / 20"
    by (simp add: spec_age_hours_def)
  ultimately have exact: "\<bar>to_double (total_seconds 1260000000 / 3600) - 7 / 20\<bar> \<le> 7 / 20 / 2 ^ 51"
    by (simp only: abs_divide abs_numeral)
  have tenths: "round_half_even (to_double (total_seconds 1260000000 / 3600) * 10) = 3"
    unfolding age_twenty_one_minutes by (simp add: round_half_even_def)
  from inst have "read_decimal (format_1f (to_double (total_seconds 1260000000 / 3600)))
      = real_of_int (round_half_even (to_double (total_seconds 1260000000 / 3600) * 10)) / 10"
    by blast
  then have "read_decimal ''0.3'' = real_of_int 3 / 10"
    unfolding label_twenty_one_minutes tenths .
  then have printed: "read_decimal ''0.3'' = 3 / 10" by simp
  from inst have "\<bar>read_decimal (format_1f (to_double (total_seconds 1260000000 / 3600)))
      - to_double (total_seconds 1260000000 / 3600)\<bar> \<le> 1 / 20"
    by blast
  then have near: "\<bar>read_decimal ''0.3'' - to_double (total_seconds 1260000000 / 3600)\<bar> \<le> 1 / 20"
    unfolding label_twenty_one_minutes .
  from absent unreadable no_key bad_date aware thirty at_21 at_90 at_603 exact printed near
  show ?thesis by (intro conjI)
qed

section \<open>The acquisition\<close>

lemma generate_demo_data_cache: "generate_demo_data (w\<lparr>cache := file\<rparr>) = generate_demo_data w"
  by (simp add: generate_demo_data_def today_def)

lemma parse_timestamp_cache: "parse_timestamp (w\<lparr>cache := file\<rparr>) ts = parse_timestamp w ts"
  by (cases ts) (simp_all add: parse_timestamp_def)

lemma read_cache_cache: "read_cache (w\<lparr>cache := file\<rparr>) cache_json = read_cache w cache_json"
  by (simp add: read_cache_def parse_timestamp_cache cong: sum.case_cong)

lemma try_cache_cache: "try_cache (w\<lparr>cache := file\<rparr>) content = try_cache w content"
  by (cases content) (simp_all add: try_cache_def read_cache_cache)

lemma load_unusable:
  assumes "cache_unusable w file"
  shows "load_cached_data (w\<lparr>cache := file\<rparr>) = generate_demo_data w"
  using assms
  by (auto simp: load_unless_usable cache_unusable_def try_cache_cache generate_demo_data_cache
      split: cache_file.splits sum.splits)

lemma load_unusable_same:
  assumes "cache_unusable w (cache w)"
  shows "load_cached_data w = generate_demo_data w"
  using load_unusable [OF assms] by simp

lemma fetch_historical_data_rows:
  "fetch_historical_data w days = Some (df, msg) \<Longrightarrow> rows df \<noteq> []"
  by (auto simp: fetch_historical_data_def Let_def DataFrame_def split: option.splits if_splits)

text \<open>
  C10. The demo series has exactly 30 points, whatever number of days was asked for,
  and the reported current rate is the rate of its last point. The acquisition returns
  it whenever the history fetch fails and the cache fails, and whenever the history
  fetch succeeds but writing the cache raises and leaves a cache that fails.
\<close>

theorem demo_fallback_thirty_points:
  "length (rows (fst (generate_demo_data w))) = 30
   \<and> fst (snd (generate_demo_data w)) = JNum (last (Rate (fst (generate_demo_data w))))
   \<and> (fetch_historical_data w days = None \<and> cache_unusable w (cache w) \<longrightarrow>
        fetch_real_exchange_rates w days = generate_demo_data w)
   \<and> (fetch_historical_data w days \<noteq> None \<and> cache_dump w = Some left
        \<and> cache_unusable w left \<longrightarrow>
        fetch_real_exchange_rates w days = generate_demo_data w)"
proof (intro conjI impI)
  show "length (rows (fst (generate_demo_data w))) = 30" by (rule demo_rows)
next
  have "last (map demo_rate [0..<30]) = demo_rate 29"
    by (simp add: last_map)
  then show "fst (snd (generate_demo_data w)) = JNum (last (Rate (fst (generate_demo_data w))))"
    by (simp only: demo_Rate) (simp add: generate_demo_data_eq)
next
  assume "fetch_historical_data w days = None \<and> cache_unusable w (cache w)"
  then show "fetch_real_exchange_rates w days = generate_demo_data w"
    by (simp add: fetch_real_exchange_rates_def load_unusable_same split: prod.splits)
next
  assume h: "fetch_historical_data w days \<noteq> None \<and> cache_dump w = Some left
        \<and> cache_unusable w left"
  then obtain df msg where hist: "fetch_historical_data w days = Some (df, msg)" by auto
  then have "rows df \<noteq> []" by (rule fetch_historical_data_rows)
  with h hist show "fetch_real_exchange_rates w days = generate_demo_data w"
    by (simp add: fetch_real_exchange_rates_def load_unusable split: prod.splits)
qed

theorem demo_fallback_thirty_points_witness:
  "length (rows (fst (fetch_real_exchange_rates (offline No_File new_year_2024) 7))) = 30
   \<and> length (rows (fst (fetch_real_exchange_rates (offline (File (Inr not_a_date)) new_year_2024) 365))) = 30
   \<and> length (rows (fst (fetch_real_exchange_rates write_fails 90))) = 30
   \<and> fst (snd (fetch_real_exchange_rates (offline No_File new_year_2024) 7)) = JNum 3.107"
proof -
  let ?w1 = "offline No_File new_year_2024"
  let ?w2 = "offline (File (Inr not_a_date)) new_year_2024"
  have h1: "fetch_historical_data ?w1 7 = None \<and> cache_unusable ?w1 (cache ?w1)"
    by (simp add: fetch_historical_data_def offline_def cache_unusable_def)
  have h2: "fetch_historical_data ?w2 365 = None \<and> cache_unusable ?w2 (cache ?w2)"
    by (simp add: fetch_historical_data_def offline_def cache_unusable_def try_cache_def
        read_cache_def not_a_date_def records_frame_def parse_timestamp_def iso_new_year_def)
  have h3: "fetch_historical_data write_fails 90 \<noteq> None
      \<and> cache_dump write_fails = Some (File (Inl JSONDecodeError))
      \<and> cache_unusable write_fails (File (Inl JSONDecodeError))"
    by (simp add: fetch_historical_data_def write_fails_def offline_def cache_unusable_def
        try_cache_def)
  have e1: "fetch_real_exchange_rates ?w1 7 = generate_demo_data ?w1"
    using demo_fallback_thirty_points [of ?w1 7] h1 by blast
  have e2: "fetch_real_exchange_rates ?w2 365 = generate_demo_data ?w2"
    using demo_fallback_thirty_points [of ?w2 365] h2 by blast
  have e3: "fetch_real_exchange_rates write_fails 90 = generate_demo_data write_fails"
    using demo_fallback_thirty_points [of write_fails 90 "File (Inl JSONDecodeError)"] h3 by blast
  have "fst (snd (generate_demo_data ?w1)) = JNum (demo_rate 29)"
    by (simp add: generate_demo_data_eq)
  moreover have "demo_rate 29 = 3.107"
    by (rule demo_rate_last)
  ultimately show ?thesis
    using e1 e2 e3 demo_fallback_thirty_points [of ?w1] demo_fallback_thirty_points [of ?w2]
      demo_fallback_thirty_points [of write_fails]
    by simp
qed

text \<open>
  The live path and the demo generator never give a frame without rows; the
  acquisition returns one only when it loads a cache record whose frame has none.
\<close>

lemma demo_rows_nonempty: "rows (fst (generate_demo_data w)) \<noteq> []"
proof
  assume "rows (fst (generate_demo_data w)) = []"
  then have "length (rows (fst (generate_demo_data w))) = 0" by simp
  then show False by (simp only: demo_rows)
qed

lemma load_rows_empty:
  assumes "rows (fst (load_cached_data w)) = []"
  shows "\<exists>j df r l. cache w = File (Inr j) \<and> read_cache w j = Inr (df, r, l) \<and> rows df = []"
proof (cases "cache w")
  case No_File
  with assms demo_rows_nonempty show ?thesis
    by (simp add: load_unless_usable)
next
  case (File content)
  show ?thesis
  proof (cases "try_cache w content")
    case (Inl e)
    with File assms demo_rows_nonempty show ?thesis
      by (simp add: load_unless_usable)
  next
    case (Inr result)
    then obtain j where j: "content = Inr j" "read_cache w j = Inr result"
      by (cases content) (simp_all add: try_cache_def)
    obtain df r l where res: "result = (df, r, l)" by (cases result) auto
    from File Inr assms res have "rows df = []"
      by (simp add: load_unless_usable)
    with File j res show ?thesis by blast
  qed
qed

lemma fetch_real_live:
  assumes "fetch_historical_data w days = Some (df, msg)" "cache_dump w = None"
  shows "fst (fetch_real_exchange_rates w days) = df"
proof -
  have "rows df \<noteq> []" using assms(1) by (rule fetch_historical_data_rows)
  with assms show ?thesis
    by (simp add: fetch_real_exchange_rates_def Let_def split: prod.splits)
qed

lemma fetch_real_dump:
  assumes "fetch_historical_data w days = Some (df, msg)" "cache_dump w = Some left"
  shows "fetch_real_exchange_rates w days = load_cached_data (w\<lparr>cache := left\<rparr>)"
proof -
  have "rows df \<noteq> []" using assms(1) by (rule fetch_historical_data_rows)
  with assms show ?thesis
    by (simp add: fetch_real_exchange_rates_def split: prod.splits)
qed

lemma fetch_real_none:
  assumes "fetch_historical_data w days = None"
  shows "fetch_real_exchange_rates w days = load_cached_data w"
  using assms by (simp add: fetch_real_exchange_rates_def split: prod.splits)

lemma acquisition_rows_empty:
  assumes "rows (fst (fetch_real_exchange_rates w days)) = []"
  shows "\<exists>c j df r l. (c = cache w \<or> cache_dump w = Some c) \<and> c = File (Inr j)
      \<and> read_cache w j = Inr (df, r, l) \<and> rows df = []"
proof (cases "fetch_historical_data w days")
  case None
  then have "fetch_real_exchange_rates w days = load_cached_data w"
    by (rule fetch_real_none)
  with assms have "rows (fst (load_cached_data w)) = []" by simp
  from load_rows_empty [OF this] obtain j df r l where
    "cache w = File (Inr j)" "read_cache w j = Inr (df, r, l)" "rows df = []"
    by auto
  then show ?thesis by auto
next
  case (Some found)
  obtain df msg where hist: "fetch_historical_data w days = Some (df, msg)"
    using Some by (cases found) simp
  show ?thesis
  proof (cases "cache_dump w")
    case None
    have "rows df \<noteq> []" using hist by (rule fetch_historical_data_rows)
    moreover have "fst (fetch_real_exchange_rates w days) = df"
      using hist None by (rule fetch_real_live)
    ultimately show ?thesis using assms by simp
  next
    case (Some left)
    have "fetch_real_exchange_rates w days = load_cached_data (w\<lparr>cache := left\<rparr>)"
      using hist Some by (rule fetch_real_dump)
    with assms have "rows (fst (load_cached_data (w\<lparr>cache := left\<rparr>))) = []"
      by simp
    from load_rows_empty [OF this] obtain j df' r l where
      "cache (w\<lparr>cache := left\<rparr>) = File (Inr j)"
      "read_cache (w\<lparr>cache := left\<rparr>) j = Inr (df', r, l)" "rows df' = []"
      by auto
    then have "left = File (Inr j)" "read_cache w j = Inr (df', r, l)" "rows df' = []"
      by (simp_all add: read_cache_cache)
    with Some show ?thesis by auto
  qed
qed

text \<open>
  C3 fails on the code: with the history fetch down and a cache record whose
  \<^verbatim>\<open>data\<close> array is empty, the acquisition returns a frame without rows.
\<close>

theorem empty_cache_record_returned:
  "fetch_real_exchange_rates (offline (File (Inr empty_record)) ninety_minutes_later) 30
     = (DataFrame [], JNum 3.1, warning_sign @ '' Using cached data (1.5 hours old)'')
   \<and> rows (fst (fetch_real_exchange_rates
                  (offline (File (Inr empty_record)) ninety_minutes_later) 30)) = []"
  by (simp add: fetch_real_exchange_rates_def offline_def get_current_rate_def if_rate_def
    fetch_from_bank_of_israel_def fetch_from_exchangerate_host_def fetch_from_exchangerate_api_def
    fetch_historical_data_def load_cached_data_def try_cache_def read_cache_def empty_record_def
    records_frame_def parse_timestamp_def iso_new_year_def age_hours_def new_year_2024_def
    ninety_minutes_later_def label_ninety_minutes DataFrame_def)

end
